theory Spec2Isabelle
  imports Complex_Main "HOL-Library.Log_Nat" "HOL-Library.Sublist"
begin

section \<open>Python text primitives\<close>

text \<open>
  Text is modelled as ASCII: a \<open>string\<close> is a list of 8-bit characters, \<open>str.lower()\<close>
  maps \<open>A\<close>..\<open>Z\<close> to \<open>a\<close>..\<open>z\<close>, the regex class \<open>\w\<close> is letters, digits and the
  underscore, and \<open>\s\<close> (also the separators of \<open>str.split()\<close>) is the ASCII white space.
\<close>

definition is_upper :: "char \<Rightarrow> bool" where
  "is_upper c = (65 \<le> (of_char c :: nat) \<and> (of_char c :: nat) \<le> 90)"

definition is_lower :: "char \<Rightarrow> bool" where
  "is_lower c = (97 \<le> (of_char c :: nat) \<and> (of_char c :: nat) \<le> 122)"

definition is_digit :: "char \<Rightarrow> bool" where
  "is_digit c = (48 \<le> (of_char c :: nat) \<and> (of_char c :: nat) \<le> 57)"

definition is_word_char :: "char \<Rightarrow> bool" where
  "is_word_char c = (is_upper c \<or> is_lower c \<or> is_digit c \<or> c = CHR ''_'')"

definition is_space_char :: "char \<Rightarrow> bool" where
  "is_space_char c = ((of_char c :: nat) \<in> {9, 10, 11, 12, 13, 28, 29, 30, 31, 32})"

definition lower_char :: "char \<Rightarrow> char" where
  "lower_char c = (if is_upper c then char_of ((of_char c :: nat) + 32) else c)"

definition lower :: "string \<Rightarrow> string" where
  "lower s = map lower_char s"

text \<open>Python's \<open>needle in haystack\<close> on strings is the contiguous-sublist test.\<close>

definition str_in :: "string \<Rightarrow> string \<Rightarrow> bool" where
  "str_in needle hay = sublist needle hay"

subsection \<open>The regular expressions of the source\<close>

text \<open>
  Every pattern of the source is an alternation of literals, some of them anchored by
  \<open>\b\<close> on the left, on the right or on both sides; \<open>\b(a|b)\b\<close> distributes over its
  alternatives. \<open>re.search\<close> succeeds iff some alternative matches at some position.
  A word boundary lies between two positions exactly one of which holds a word character
  (the outside of the text counts as a non-word character).
\<close>

datatype atom =
    Lit string      \<comment> \<open>\<open>abc\<close>\<close>
  | WordL string    \<comment> \<open>\<open>\babc\<close>\<close>
  | WordR string    \<comment> \<open>\<open>abc\b\<close>\<close>
  | Word string     \<comment> \<open>\<open>\babc\b\<close>\<close>

fun is_word_opt :: "char option \<Rightarrow> bool" where
  "is_word_opt None = False"
| "is_word_opt (Some c) = is_word_char c"

definition word_boundary :: "char option \<Rightarrow> char option \<Rightarrow> bool" where
  "word_boundary a b = (is_word_opt a \<noteq> is_word_opt b)"

fun first_char :: "string \<Rightarrow> char option" where
  "first_char [] = None"
| "first_char (c # cs) = Some c"

fun last_char :: "char option \<Rightarrow> string \<Rightarrow> char option" where
  "last_char prev [] = prev"
| "last_char prev (c # cs) = last_char (Some c) cs"

definition boundary_left :: "string \<Rightarrow> char option \<Rightarrow> bool" where
  "boundary_left l prev = word_boundary prev (first_char l)"

definition boundary_right :: "string \<Rightarrow> char option \<Rightarrow> string \<Rightarrow> bool" where
  "boundary_right l prev s = word_boundary (last_char prev l) (first_char (drop (length l) s))"

fun match_here :: "atom \<Rightarrow> char option \<Rightarrow> string \<Rightarrow> bool" where
  "match_here (Lit l) prev s = prefix l s"
| "match_here (WordL l) prev s = (prefix l s \<and> boundary_left l prev)"
| "match_here (WordR l) prev s = (prefix l s \<and> boundary_right l prev s)"
| "match_here (Word l) prev s = (prefix l s \<and> boundary_left l prev \<and> boundary_right l prev s)"

fun search_from :: "atom list \<Rightarrow> char option \<Rightarrow> string \<Rightarrow> bool" where
  "search_from ps prev [] = list_ex (\<lambda>p. match_here p prev []) ps"
| "search_from ps prev (c # cs) =
     (list_ex (\<lambda>p. match_here p prev (c # cs)) ps \<or> search_from ps (Some c) cs)"

definition re_search :: "atom list \<Rightarrow> string \<Rightarrow> bool" where
  "re_search ps s = search_from ps None s"

text \<open>The literal of an alternative.\<close>

fun lit_of :: "atom \<Rightarrow> string" where
  "lit_of (Lit l) = l"
| "lit_of (WordL l) = l"
| "lit_of (WordR l) = l"
| "lit_of (Word l) = l"

section \<open>Python values\<close>

text \<open>
  The fields \<open>industry\<close> and \<open>size\<close> are typed \<open>Any\<close> in the source, which tests them
  for \<open>None\<close> and for lists. Records are built from CSV text, so a field holds \<open>None\<close>,
  a string or a list; numbers are outside the model. \<open>str\<close> of a list prints the \<open>repr\<close>
  of its elements; a string's \<open>repr\<close> picks its quote and escapes as CPython does.
\<close>

datatype pyval = PNone | PStr string | PList "pyval list"

datatype error = IndexError | OverflowError | ZeroDivisionError

definition digit_char :: "nat \<Rightarrow> char" where
  "digit_char n = char_of (48 + n)"

fun str_nat :: "nat \<Rightarrow> string" where
  "str_nat n = (if n < 10 then [digit_char n] else str_nat (n div 10) @ [digit_char (n mod 10)])"

declare str_nat.simps [simp del]

definition hex_char :: "nat \<Rightarrow> char" where
  "hex_char n = (if n < 10 then char_of (48 + n) else char_of (87 + n))"

definition repr_char :: "char \<Rightarrow> char \<Rightarrow> string" where
  "repr_char quote c =
     (if c = quote \<or> c = CHR 0x5C then [CHR 0x5C, c]
      else if c = CHR 0x09 then [CHR 0x5C, CHR ''t'']
      else if c = CHR 0x0A then [CHR 0x5C, CHR ''n'']
      else if c = CHR 0x0D then [CHR 0x5C, CHR ''r'']
      else if (of_char c :: nat) < 32 \<or> (of_char c :: nat) = 127
        then [CHR 0x5C, CHR ''x'', hex_char ((of_char c :: nat) div 16),
              hex_char ((of_char c :: nat) mod 16)]
      else [c])"

definition repr_str :: "string \<Rightarrow> string" where
  "repr_str s =
     (let quote = (if CHR 0x27 \<in> set s \<and> CHR 0x22 \<notin> set s then CHR 0x22 else CHR 0x27)
      in [quote] @ concat (map (repr_char quote) s) @ [quote])"

fun join :: "string \<Rightarrow> string list \<Rightarrow> string" where
  "join sep [] = []"
| "join sep [x] = x"
| "join sep (x # y # ys) = x @ sep @ join sep (y # ys)"

fun py_repr :: "pyval \<Rightarrow> string" where
  "py_repr PNone = ''None''"
| "py_repr (PStr s) = repr_str s"
| "py_repr (PList vs) = ''['' @ join '', '' (map py_repr vs) @ '']''"

fun py_str :: "pyval \<Rightarrow> string" where
  "py_str (PStr s) = s"
| "py_str v = py_repr v"

fun truthy :: "pyval \<Rightarrow> bool" where
  "truthy PNone = False"
| "truthy (PStr s) = (s \<noteq> [])"
| "truthy (PList vs) = (vs \<noteq> [])"

fun to_string_safe :: "pyval \<Rightarrow> string" where
  "to_string_safe PNone = []"
| "to_string_safe (PStr s) = s"
| "to_string_safe v = py_str v"

text \<open>\<open>v[0] if isinstance(v, list) else v\<close>: indexing an empty list raises.\<close>

fun first_if_list :: "pyval \<Rightarrow> error + pyval" where
  "first_if_list (PList []) = Inl IndexError"
| "first_if_list (PList (v # vs)) = Inr v"
| "first_if_list v = Inr v"

section \<open>Floating point\<close>

text \<open>
  A Python \<open>float\<close> is an IEEE 754 double. Its values are modelled as the rationals they
  denote; every operation computes the exact result and rounds it to the nearest double,
  ties to the even significand (\<open>fl\<close>): 53 significant bits, the quantum never below
  \<open>2\<^sup>-\<^sup>1\<^sup>0\<^sup>7\<^sup>4\<close>. Overflow is checked where the source can reach it (integer true
  division). \<open>round(x)\<close> of a float rounds half to even (\<open>py_round\<close>).
\<close>

definition py_round :: "rat \<Rightarrow> int" where
  "py_round x =
     (let f = \<lfloor>x\<rfloor>; r = x - of_int f
      in if r < 1 / 2 then f else if 1 / 2 < r then f + 1 else if even f then f else f + 1)"

definition ilog2 :: "rat \<Rightarrow> int" where
  "ilog2 x =
     (let (p, q) = quotient_of x; e = bitlen p - bitlen q
      in if 2 powi e \<le> x then e else e - 1)"

definition quantum :: "rat \<Rightarrow> int" where
  "quantum x = max (ilog2 \<bar>x\<bar>) (- 1022) - 52"

definition fl :: "rat \<Rightarrow> rat" where
  "fl x =
     (if x = 0 then 0
      else sgn x * of_int (py_round (\<bar>x\<bar> / 2 powi quantum x)) * 2 powi quantum x)"

definition fadd :: "rat \<Rightarrow> rat \<Rightarrow> rat" where
  "fadd a b = fl (a + b)"

definition fmul :: "rat \<Rightarrow> rat \<Rightarrow> rat" where
  "fmul a b = fl (a * b)"

definition fdiv :: "rat \<Rightarrow> rat \<Rightarrow> rat" where
  "fdiv a b = fl (a / b)"

text \<open>A decimal literal \<open>n/d\<close> of the source denotes the double nearest to it.\<close>

definition flit :: "int \<Rightarrow> int \<Rightarrow> rat" where
  "flit n d = fl (of_int n / of_int d)"

text \<open>
  \<open>a / b\<close> on two Python ints: the correctly rounded quotient; a zero divisor and a
  quotient beyond the doubles raise.
\<close>

definition int_truediv :: "int \<Rightarrow> int \<Rightarrow> error + rat" where
  "int_truediv a b =
     (if b = 0 then Inl ZeroDivisionError
      else let r = fl (of_int a / of_int b)
           in if 2 ^ 1024 \<le> \<bar>r\<bar> then Inl OverflowError else Inr r)"

definition bind_err :: "error + 'a \<Rightarrow> ('a \<Rightarrow> error + 'b) \<Rightarrow> error + 'b" where
  "bind_err m f = (case m of Inl e \<Rightarrow> Inl e | Inr v \<Rightarrow> f v)"

section \<open>Data model\<close>

text \<open>
  Modelled from the spec: the record types of \<open>connector/models.py\<close>, a module the
  sources import but do not include. The fields are those of the specification's data
  model. Text fields are strings (never null); \<open>industry\<close> and \<open>size\<close> hold \<open>None\<close>, a
  string or a list. The field \<open>supply\<close> of a match is named \<open>supply_rec\<close> and the field
  \<open>size\<close> of a record \<open>size_field\<close>; the dictionaries of an aggregate and of the
  statistics are records, and a need profile and a capability profile, which have the same
  four fields, share one record type.
\<close>

record SignalMeta =
  kind :: string
  label :: "string option"

record NormalizedRecord =
  domain :: string
  company :: string
  full_name :: string
  first_name :: string
  last_name :: string
  email :: string
  title :: string
  industry :: pyval
  signal :: string
  signal_meta :: "SignalMeta option"
  company_description :: string
  company_funding :: string
  size_field :: pyval
  record_key :: string
  metadata :: "(string \<times> string) list"

record Profile =
  category :: string
  specifics :: "string list"
  confidence :: rat
  source :: string

type_synonym NeedProfile = Profile
type_synonym CapabilityProfile = Profile

datatype tier = Strong | Good | Open

record Match =
  demand :: NormalizedRecord
  supply_rec :: NormalizedRecord
  score :: int
  reasons :: "string list"
  tier :: tier
  tier_reason :: string
  need_profile :: NeedProfile
  capability_profile :: CapabilityProfile

record Aggregate =
  agg_supply :: NormalizedRecord
  matches :: "Match list"
  best_match :: Match
  total_matches :: nat

record Stats =
  total_demand :: nat
  total_supply :: nat
  stats_total_matches :: nat
  unique_demands_matched :: nat
  avg_score :: int

record MatchingResult =
  demand_matches :: "Match list"
  supply_aggregates :: "Aggregate list"
  stats :: Stats

section \<open>Need and capability extraction\<close>

definition opt_item :: "bool \<Rightarrow> 'a \<Rightarrow> 'a list" where
  "opt_item b x = (if b then [x] else [])"

definition is_hiring_data :: "NormalizedRecord \<Rightarrow> bool" where
  "is_hiring_data d = (case signal_meta d of None \<Rightarrow> False | Some sm \<Rightarrow> kind sm = ''HIRING_ROLE'')"

definition funding_words :: "atom list" where
  "funding_words = [Lit ''raised'', Lit ''funding'', Lit ''series'', Lit ''seed'', Lit ''round'']"

definition extract_need_from_demand :: "NormalizedRecord \<Rightarrow> NeedProfile" where
  "extract_need_from_demand d =
    (let sig = lower (signal d);
         title_l = lower (title d);
         description = lower (company_description d);
         funding = lower (company_funding d);
         industry_l = lower (to_string_safe (industry d));
         company_l = lower (company d)
     in
     if \<not> is_hiring_data d then
       (let industry_and_desc = industry_l @ '' '' @ company_l @ '' '' @ description in
        if re_search [Lit ''biotech'', Lit ''pharma'', Lit ''therapeutic'', Lit ''clinical'',
                      Lit ''life science'', Lit ''drug'', Lit ''medical device'', Lit ''biopharma'']
             industry_and_desc
        then \<lparr>category = ''biotech'', specifics = opt_item (funding \<noteq> []) ''funded'',
              confidence = flit 85 100, source = ''industry''\<rparr>
        else if re_search [Lit ''health'', Lit ''medical'', Lit ''hospital'', Lit ''patient'',
                           Lit ''clinic''] industry_and_desc
                \<and> \<not> re_search [Lit ''biotech'', Lit ''pharma''] industry_and_desc
        then \<lparr>category = ''healthcare'', specifics = [], confidence = flit 8 10,
              source = ''industry''\<rparr>
        else if re_search [Word ''software'', Lit ''saas'', Word ''cloud'', Lit ''platform'',
                           Lit ''digital'', Lit ''ai company'', Lit ''tech company'']
                  industry_and_desc
                \<and> \<not> re_search [Lit ''biotech'', Lit ''fintech'', Lit ''healthtech'']
                      industry_and_desc
        then \<lparr>category = ''tech'', specifics = [], confidence = flit 8 10,
              source = ''industry''\<rparr>
        else if re_search [Lit ''fintech'', Lit ''financial technology''] industry_and_desc
        then \<lparr>category = ''fintech'', specifics = [], confidence = flit 8 10,
              source = ''industry''\<rparr>
        else if re_search [Lit ''financ'', Lit ''banking'', Lit ''insurance'', Lit ''invest'',
                           Lit ''capital'', Lit ''asset''] industry_and_desc
                \<and> \<not> re_search [Lit ''fintech''] industry_and_desc
        then \<lparr>category = ''finance_co'', specifics = [], confidence = flit 75 100,
              source = ''industry''\<rparr>
        else if funding \<noteq> [] \<or> re_search funding_words description
        then \<lparr>category = ''growth'', specifics = [''post-funding'', ''scaling''],
              confidence = flit 7 10, source = ''funding_signal''\<rparr>
        else \<lparr>category = ''company'', specifics = [], confidence = flit 4 10,
              source = ''industry''\<rparr>)
     else
       (let combined = sig @ '' '' @ title_l in
        if re_search [Lit ''engineer'', Lit ''developer'', Word ''software'', Lit ''devops'',
                      Lit ''backend'', Lit ''frontend'', Lit ''fullstack'', WordR ''ml'',
                      WordR ''ai'', Lit ''data scientist''] combined
           \<and> \<not> re_search [Lit ''recruit''] combined
        then \<lparr>category = ''engineering'',
              specifics =
                opt_item (re_search [Lit ''senior'', Lit ''staff'', Lit ''lead'', Lit ''principal'']
                        combined) ''senior''
                @ opt_item (re_search [Lit ''ml'', Lit ''machine learning'', WordR ''ai''] combined)
                    ''ML/AI''
                @ opt_item (re_search [Lit ''backend'', Lit ''server''] combined) ''backend''
                @ opt_item (re_search [Lit ''frontend'', Lit ''react'', Lit ''ui''] combined)
                    ''frontend'',
              confidence = flit 9 10, source = ''job_signal''\<rparr>
        else if re_search [Word ''sales'', Lit ''account executive'', Word ''ae'', Word ''sdr'',
                           Word ''bdr'', Lit ''revenue'', Lit ''business development'',
                           Lit ''closer''] combined
        then \<lparr>category = ''sales'',
              specifics =
                opt_item (re_search [Lit ''vp'', Lit ''head'', Lit ''director''] combined)
                  ''leadership''
                @ opt_item (re_search [Lit ''enterprise''] combined) ''enterprise'',
              confidence = flit 9 10, source = ''job_signal''\<rparr>
        else if re_search [Lit ''marketing'', Lit ''growth'', Lit ''brand'', Lit ''content'',
                           Word ''seo'', Lit ''paid'', Lit ''demand gen'', Lit ''gtm''] combined
        then \<lparr>category = ''marketing'',
              specifics =
                opt_item (re_search [Lit ''head'', Lit ''vp'', Lit ''director''] combined)
                  ''leadership''
                @ opt_item (re_search [Lit ''content''] combined) ''content'',
              confidence = flit 9 10, source = ''job_signal''\<rparr>
        else if re_search [Word ''finance'', Word ''cfo'', Lit ''accounting'', Lit ''controller'',
                           Lit ''fp&a'', Lit ''bookkeep''] combined
        then \<lparr>category = ''finance'', specifics = [], confidence = flit 9 10,
              source = ''job_signal''\<rparr>
        else if re_search [Lit ''operations'', Word ''ops'', Word ''coo'', Lit ''chief operating'',
                           Lit ''supply chain'', Lit ''logistics''] combined
        then \<lparr>category = ''operations'', specifics = [], confidence = flit 9 10,
              source = ''job_signal''\<rparr>
        else if re_search [Lit ''recruiter'', Lit ''talent'', Word ''hr'', Lit ''human resources'',
                           Lit ''people ops''] combined
        then \<lparr>category = ''recruiting'', specifics = [], confidence = flit 9 10,
              source = ''job_signal''\<rparr>
        else if funding \<noteq> [] \<or> re_search funding_words (combined @ '' '' @ description)
        then \<lparr>category = ''growth'', specifics = [''post-funding'', ''scaling''],
              confidence = flit 7 10, source = ''funding_signal''\<rparr>
        else \<lparr>category = ''general'', specifics = [], confidence = flit 3 10,
              source = ''none''\<rparr>))"

definition recruiting_trigger :: "atom list" where
  "recruiting_trigger =
     [Lit ''recruit'', Lit ''staffing'', Lit ''talent acquisition'', Lit ''headhunt'',
      Lit ''placement'', Lit ''hiring agency'', Lit ''staffing agency'']"

definition capability_of :: "string \<Rightarrow> string \<Rightarrow> string \<Rightarrow> string \<Rightarrow> CapabilityProfile" where
  "capability_of description title_l company_l industry_l =
    (let combined = description @ '' '' @ title_l @ '' '' @ company_l @ '' '' @ industry_l in
     if re_search recruiting_trigger combined
     then \<lparr>category = ''recruiting'',
           specifics =
             opt_item (re_search [Lit ''engineer'', Word ''software''] combined) ''tech''
             @ opt_item (re_search [Lit ''executive'', Lit ''c-suite'', Lit ''leadership''] combined)
                 ''executive'',
           confidence =
             (if str_in ''recruit'' description then flit 95 100
              else if str_in ''recruit'' title_l then flit 85 100 else flit 7 10),
           source =
             (if str_in ''recruit'' description then ''description''
              else if str_in ''recruit'' title_l then ''title'' else ''company_name'')\<rparr>
     else if re_search [Lit ''marketing agency'', Lit ''ad agency'', Lit ''advertising agency'',
                        Lit ''creative agency'', Lit ''pr agency''] combined
     then \<lparr>category = ''marketing'',
           specifics =
             opt_item (re_search [Lit ''startup'', Lit ''venture''] combined) ''startups''
             @ opt_item (re_search [Lit ''enterprise'', Lit ''b2b''] combined) ''enterprise'',
           confidence = flit 9 10, source = ''description''\<rparr>
     else if re_search [Lit ''dev shop'', Lit ''development agency'', Lit ''software agency'',
                        Lit ''software consultancy'', Lit ''app development''] combined
     then \<lparr>category = ''engineering'',
           specifics =
             opt_item (re_search [Lit ''startup''] combined) ''startups''
             @ opt_item (re_search [Lit ''mobile'', Lit ''ios'', Lit ''android''] combined) ''mobile'',
           confidence = flit 8 10, source = ''description''\<rparr>
     else if re_search [Lit ''consulting firm'', Lit ''advisory firm'',
                        Lit ''management consulting'', Lit ''strategy consulting'',
                        Lit ''consultancy''] combined
     then \<lparr>category = ''consulting'', specifics = [], confidence = flit 75 100,
           source = ''description''\<rparr>
     else if re_search [Lit ''fractional'', Lit ''interim'', Lit ''outsourced cfo'',
                        Lit ''outsourced coo'', Lit ''part-time executive''] combined
     then \<lparr>category = ''fractional'', specifics = [], confidence = flit 8 10,
           source = ''title''\<rparr>
     else if re_search [Lit ''biotech'', Lit ''pharma'', Lit ''therapeutic'', Lit ''clinical'',
                        Lit ''life science'', Lit ''biopharma''] combined
     then \<lparr>category = ''biotech_contact'', specifics = [], confidence = flit 7 10,
           source = ''industry''\<rparr>
     else if re_search [Lit ''health'', Lit ''medical'', Lit ''hospital''] combined
             \<and> \<not> re_search [Lit ''biotech'', Lit ''pharma''] combined
     then \<lparr>category = ''healthcare_contact'', specifics = [], confidence = flit 65 100,
           source = ''industry''\<rparr>
     else if re_search [Word ''software'', Lit ''saas'', Word ''cloud'', Lit ''platform''] combined
             \<and> \<not> re_search [Lit ''agency'', Lit ''shop'', Lit ''development company'',
                              Lit ''consultancy''] combined
     then \<lparr>category = ''tech_contact'', specifics = [], confidence = flit 6 10,
           source = ''industry''\<rparr>
     else if re_search [Lit ''financ'', Lit ''banking'', Lit ''investment'', Lit ''capital'']
               combined
             \<and> \<not> re_search [Lit ''recruit''] combined
     then \<lparr>category = ''finance_contact'', specifics = [], confidence = flit 6 10,
           source = ''industry''\<rparr>
     else if re_search [Lit ''business development'', Lit ''licensing'', Lit ''partnerships'',
                        WordR ''bd''] title_l
     then \<lparr>category = ''bd_professional'', specifics = [], confidence = flit 7 10,
           source = ''title''\<rparr>
     else if re_search [Lit ''ceo'', Lit ''cto'', Lit ''cfo'', Lit ''coo'', Lit ''founder'',
                        Lit ''co-founder'', Lit ''president'', Lit ''chief''] title_l
     then \<lparr>category = ''executive'', specifics = [], confidence = flit 5 10,
           source = ''title''\<rparr>
     else \<lparr>category = ''professional'', specifics = [], confidence = flit 3 10,
           source = ''none''\<rparr>)"

definition extract_capability_from_supply :: "NormalizedRecord \<Rightarrow> error + CapabilityProfile" where
  "extract_capability_from_supply s =
     bind_err (first_if_list (industry s)) (\<lambda>industry_raw.
       Inr (capability_of (lower (company_description s)) (lower (title s))
              (lower (company s)) (lower (to_string_safe industry_raw))))"

section \<open>Alignment scoring\<close>

definition industry_matches :: "(string \<times> string list) list" where
  "industry_matches =
     [(''biotech'', [''biotech_contact'', ''bd_professional'']),
      (''healthcare'', [''healthcare_contact'', ''biotech_contact'']),
      (''tech'', [''tech_contact'', ''engineering'']),
      (''fintech'', [''finance_contact'', ''tech_contact'']),
      (''finance_co'', [''finance_contact'', ''consulting''])]"

definition cross_matches :: "(string \<times> string list) list" where
  "cross_matches =
     [(''engineering'', [''recruiting'', ''consulting'']),
      (''sales'', [''marketing'', ''recruiting'']),
      (''marketing'', [''sales'', ''growth'']),
      (''finance'', [''consulting'', ''fractional''])]"

definition score_alignment_rest :: "string \<Rightarrow> string \<Rightarrow> int" where
  "score_alignment_rest need_cat cap_cat =
     (if cap_cat = ''recruiting''
         \<and> need_cat \<in> set [''engineering'', ''sales'', ''marketing'', ''finance'', ''operations'',
                            ''recruiting'']
      then 45
      else if cap_cat = ''engineering'' \<and> need_cat = ''engineering'' then 40
      else if cap_cat = ''marketing'' \<and> need_cat = ''marketing'' then 50
      else if cap_cat = ''consulting''
              \<and> need_cat \<in> set [''operations'', ''growth'', ''finance_co'', ''company'']
      then 35
      else if cap_cat = ''fractional'' \<and> need_cat \<in> set [''growth'', ''finance'', ''operations'']
      then 40
      else if cap_cat = ''bd_professional''
      then (if need_cat \<in> set [''growth'', ''biotech'', ''healthcare'', ''tech'', ''fintech'']
            then 35 else 20)
      else if cap_cat = ''executive'' then (if need_cat = ''growth'' then 30 else 15)
      else if need_cat = ''growth''
      then (if cap_cat \<in> set [''marketing'', ''recruiting''] then 40
            else if cap_cat \<in> set [''consulting'', ''fractional''] then 35
            else if cap_cat \<notin> set [''general'', ''professional''] then 25
            else 15)
      else if (case map_of cross_matches need_cat of
                 None \<Rightarrow> False | Some caps \<Rightarrow> cap_cat \<in> set caps)
      then 25
      else if need_cat \<in> set [''general'', ''company'']
      then (if cap_cat \<in> set [''consulting'', ''bd_professional''] then 20 else 15)
      else if cap_cat \<in> set [''general'', ''professional''] then 10
      else 5)"

definition score_alignment :: "NeedProfile \<Rightarrow> CapabilityProfile \<Rightarrow> int" where
  "score_alignment need capability =
     (let need_cat = category need; cap_cat = category capability
      in case map_of industry_matches need_cat of
           None \<Rightarrow> score_alignment_rest need_cat cap_cat
         | Some caps \<Rightarrow>
             if (case caps of [] \<Rightarrow> False | c # _ \<Rightarrow> c = cap_cat) then 50
             else if cap_cat \<in> set caps then 40
             else score_alignment_rest need_cat cap_cat)"

section \<open>Tier determination\<close>

definition need_labels :: "(string \<times> string) list" where
  "need_labels =
     [(''engineering'', ''Hiring engineers''), (''sales'', ''Hiring sales''),
      (''marketing'', ''Hiring marketing''), (''recruiting'', ''Hiring recruiters''),
      (''finance'', ''Hiring finance''), (''operations'', ''Hiring operations''),
      (''growth'', ''Raised funding''), (''general'', ''Active company''),
      (''biotech'', ''Biotech company''), (''healthcare'', ''Healthcare company''),
      (''tech'', ''Tech company''), (''fintech'', ''Fintech company''),
      (''finance_co'', ''Finance company''), (''company'', ''Company'')]"

definition cap_labels :: "(string \<times> string) list" where
  "cap_labels =
     [(''recruiting'', ''Recruiter''), (''marketing'', ''Marketing agency''),
      (''engineering'', ''Dev shop''), (''consulting'', ''Consultant''),
      (''fractional'', ''Fractional exec''), (''sales'', ''Sales consultant''),
      (''finance'', ''Finance consultant''), (''operations'', ''Ops consultant''),
      (''growth'', ''Growth partner''), (''general'', ''Provider''),
      (''biotech_contact'', ''Biotech BD contact''),
      (''healthcare_contact'', ''Healthcare contact''), (''tech_contact'', ''Tech contact''),
      (''finance_contact'', ''Finance contact''), (''bd_professional'', ''BD professional''),
      (''executive'', ''Executive''), (''professional'', ''Professional'')]"

text \<open>The arrow of the source's f-strings, U+2192, in UTF-8.\<close>

definition arrow :: string where
  "arrow = [CHR 0xE2, CHR 0x86, CHR 0x92]"

definition determine_tier ::
    "int \<Rightarrow> NeedProfile \<Rightarrow> CapabilityProfile \<Rightarrow> string option \<Rightarrow> tier \<times> string" where
  "determine_tier sc need capability demand_signal_label =
     (let need_label =
            (case demand_signal_label of
               Some l \<Rightarrow> if l \<noteq> [] then l
                         else (case map_of need_labels (category need) of
                                 Some v \<Rightarrow> v | None \<Rightarrow> category need)
             | None \<Rightarrow> (case map_of need_labels (category need) of
                          Some v \<Rightarrow> v | None \<Rightarrow> category need));
          cap_label =
            (case map_of cap_labels (category capability) of
               Some v \<Rightarrow> v | None \<Rightarrow> ''Provider'');
          tier_reason = need_label @ '' '' @ arrow @ '' '' @ cap_label;
          combined_confidence = fdiv (fadd (confidence need) (confidence capability)) 2
      in if 70 \<le> sc \<and> flit 7 10 \<le> combined_confidence then (Strong, tier_reason)
         else if 45 \<le> sc \<or> (30 \<le> sc \<and> flit 5 10 \<le> combined_confidence)
         then (Good, tier_reason)
         else (Open, tier_reason))"

section \<open>Feature scorers\<close>

definition related_groups :: "string list list" where
  "related_groups =
     [[''software'', ''tech'', ''technology'', ''saas'', ''it''],
      [''finance'', ''fintech'', ''banking'', ''financial services''],
      [''healthcare'', ''health'', ''medical'', ''biotech'', ''pharma''],
      [''staffing'', ''recruiting'', ''hr'', ''talent'', ''human resources''],
      [''marketing'', ''advertising'', ''media'', ''digital marketing''],
      [''sales'', ''business development'', ''revenue'']]"

definition score_industry :: "pyval \<Rightarrow> pyval \<Rightarrow> error + int" where
  "score_industry demand_industry supply_industry =
     (if \<not> truthy demand_industry \<or> \<not> truthy supply_industry then Inr 10
      else bind_err (first_if_list demand_industry) (\<lambda>d_raw.
           bind_err (first_if_list supply_industry) (\<lambda>s_raw.
             let d = lower (to_string_safe d_raw); s = lower (to_string_safe s_raw)
             in if d = s then Inr 30
                else if str_in d s \<or> str_in s d then Inr 20
                else if list_ex (\<lambda>group. list_ex (\<lambda>term. str_in term d) group
                                        \<and> list_ex (\<lambda>term. str_in term s) group)
                          related_groups
                then Inr 15
                else Inr 5)))"

definition lits :: "string list \<Rightarrow> atom list" where
  "lits ws = map Lit ws"

definition score_signal :: "string \<Rightarrow> string \<Rightarrow> pyval \<Rightarrow> int" where
  "score_signal demand_signal supply_title supply_industry =
     (if demand_signal = [] then 5
      else
        let sig = lower demand_signal;
            title_l = lower supply_title;
            industry_l = lower (to_string_safe supply_industry);
            is_engineering =
              re_search (lits [''engineer'', ''developer'', ''software'', ''tech'', ''cto'']) sig;
            is_sales =
              re_search (lits [''sales'', ''account'', ''revenue'', ''sdr'', ''bdr'']) sig;
            is_marketing =
              re_search (lits [''marketing'', ''growth'', ''brand'', ''content'']) sig;
            is_recruiting = re_search (lits [''recruiter'', ''talent'', ''hr'', ''hiring'']) sig;
            is_finance =
              re_search (lits [''finance'', ''cfo'', ''accounting'', ''controller'']) sig;
            supply_serves_engineering =
              re_search (lits [''engineer'', ''developer'', ''tech'', ''software''])
                (title_l @ industry_l);
            supply_serves_sales =
              re_search (lits [''sales'', ''revenue'', ''business'']) (title_l @ industry_l);
            supply_serves_marketing =
              re_search (lits [''marketing'', ''growth'', ''brand'']) (title_l @ industry_l);
            supply_serves_recruiting =
              re_search (lits [''recruit'', ''staffing'', ''talent'', ''hr'']) (title_l @ industry_l);
            supply_serves_finance =
              re_search (lits [''finance'', ''accounting'', ''cfo'']) (title_l @ industry_l)
        in if is_engineering \<and> supply_serves_engineering then 40
           else if is_sales \<and> supply_serves_sales then 40
           else if is_marketing \<and> supply_serves_marketing then 40
           else if is_recruiting \<and> supply_serves_recruiting then 40
           else if is_finance \<and> supply_serves_finance then 40
           else if supply_serves_recruiting then 25
           else 10)"

text \<open>
  \<open>int\<close> of a digit string; CPython (3.11 and later) refuses more than 4300 digits with a
  \<open>ValueError\<close>, which \<open>parse_size\<close> catches.
\<close>

definition int_max_str_digits :: nat where
  "int_max_str_digits = 4300"

definition int_of_digits :: "string \<Rightarrow> int" where
  "int_of_digits ds = foldl (\<lambda>a c. 10 * a + (int (of_char c) - 48)) 0 ds"

definition parse_size :: "pyval \<Rightarrow> int" where
  "parse_size sz =
     (let num_str = filter is_digit (to_string_safe sz)
      in if num_str = [] then 50
         else if int_max_str_digits < length num_str then 50
         else int_of_digits num_str)"

definition score_size :: "pyval \<Rightarrow> pyval \<Rightarrow> error + int" where
  "score_size demand_size supply_size =
     (if \<not> truthy demand_size \<or> \<not> truthy supply_size then Inr 10
      else bind_err (first_if_list demand_size) (\<lambda>d_size_raw.
           bind_err (first_if_list supply_size) (\<lambda>s_size_raw.
             let d_size = parse_size d_size_raw; s_size = parse_size s_size_raw
             in bind_err (int_truediv d_size (max s_size 1)) (\<lambda>ratio.
                  if flit 5 10 \<le> ratio \<and> ratio \<le> 5 then Inr 20
                  else if flit 2 10 \<le> ratio \<and> ratio \<le> 10 then Inr 15
                  else Inr 5))))"

section \<open>Semantic expansion\<close>

definition SEMANTIC_MATCHING_ENABLED :: bool where
  "SEMANTIC_MATCHING_ENABLED = True"

definition SUPPLY_CAPABILITY_EXPANSIONS :: "(string \<times> string list) list" where
  "SUPPLY_CAPABILITY_EXPANSIONS =
     [(''recruiting'',
         [''hiring'', ''talent acquisition'', ''staffing'', ''headhunting'',
          ''recruiter'', ''placement'', ''sourcing'', ''talent'', ''hire'',
          ''engineer'', ''engineers'', ''engineering'', ''developer'', ''software'',
          ''sales'', ''marketing'']),
      (''recruit'', [''hiring'', ''talent'', ''staffing'', ''hire'']),
      (''staffing'', [''recruiting'', ''hiring'', ''talent'', ''hire'']),
      (''talent'', [''recruiting'', ''hiring'', ''staffing'', ''hire'']),
      (''engineering_recruiting'',
         [''technical hiring'', ''hire engineers'', ''engineering hires'',
          ''tech hiring'', ''developer hiring'', ''engineer'', ''software'']),
      (''sales_recruiting'',
         [''sales hiring'', ''hire salespeople'', ''sales hires'', ''revenue hiring'']),
      (''marketing_recruiting'',
         [''marketing hiring'', ''hire marketers'', ''marketing hires'']),
      (''executive_recruiting'',
         [''executive hiring'', ''leadership hiring'', ''c-suite hiring'',
          ''executive search''])]"

definition DEMAND_NEED_EXPANSIONS :: "(string \<times> string list) list" where
  "DEMAND_NEED_EXPANSIONS =
     [(''hiring'',
         [''recruiting'', ''talent acquisition'', ''staffing'', ''team building'',
          ''headcount'', ''recruit'', ''recruiter'']),
      (''engineer'',
         [''recruiting'', ''staffing'', ''talent'', ''hire'', ''hiring'', ''technical hiring'']),
      (''engineers'', [''recruiting'', ''staffing'', ''talent'', ''hire'', ''hiring'']),
      (''engineering'',
         [''recruiting'', ''staffing'', ''talent'', ''hire'', ''hiring'',
          ''engineering hires'', ''hire engineers'', ''technical hiring'',
          ''developer'', ''software engineer'', ''tech talent'']),
      (''software'', [''recruiting'', ''staffing'', ''talent'', ''hire'', ''engineering'']),
      (''developer'', [''recruiting'', ''staffing'', ''talent'', ''hire'', ''engineering'']),
      (''sales'',
         [''recruiting'', ''staffing'', ''talent'', ''hire'', ''hiring'',
          ''sales hires'', ''hire salespeople'', ''sales talent'', ''revenue team'']),
      (''marketing'',
         [''recruiting'', ''staffing'', ''talent'', ''hire'', ''hiring'',
          ''marketing hires'', ''hire marketers'', ''marketing talent'']),
      (''operations'',
         [''recruiting'', ''staffing'', ''talent'', ''hire'',
          ''operations hires'', ''hire ops'', ''ops talent'']),
      (''finance'',
         [''recruiting'', ''staffing'', ''talent'', ''hire'',
          ''finance hires'', ''hire finance'', ''accounting talent''])]"

datatype side = Demand | Supply

datatype resolution = Need | Capability

record SemanticContext =
  side :: side
  ctx_text :: string

definition words :: "string list \<Rightarrow> atom list" where
  "words ws = map Word ws"

definition hiring_context_words :: "string list" where
  "hiring_context_words =
     [''hire'', ''hiring'', ''team'', ''headcount'', ''recruit'', ''talent'', ''staffing'',
      ''placement'']"

definition recruiting_context_words :: "string list" where
  "recruiting_context_words =
     [''recruit'', ''recruiting'', ''staffing'', ''talent'', ''headhunt'', ''placement'',
      ''sourcing'']"

definition resolve_ambiguous_term :: "string \<Rightarrow> SemanticContext \<Rightarrow> resolution option" where
  "resolve_ambiguous_term term ctx =
     (let lower_term = lower term;
          lower_text = lower (ctx_text ctx);
          has_hiring_context = re_search (words hiring_context_words) lower_text;
          has_recruiting_context = re_search (words recruiting_context_words) lower_text
      in if lower_term \<in> set [''engineering'', ''engineer'', ''engineers'']
         then (if side ctx = Demand \<and> has_hiring_context then Some Need
               else if side ctx = Supply \<and> has_recruiting_context then Some Capability
               else None)
         else if lower_term = ''sales''
         then (if side ctx = Demand \<and> has_hiring_context then Some Need
               else if side ctx = Supply \<and> has_recruiting_context then Some Capability
               else None)
         else if lower_term = ''marketing''
         then (if side ctx = Demand \<and> has_hiring_context then Some Need
               else if side ctx = Supply \<and> has_recruiting_context then Some Capability
               else None)
         else if lower_term = ''growth''
         then (if has_hiring_context
               then (if side ctx = Demand then Some Need else Some Capability)
               else None)
         else None)"

record SemanticExpansionResult =
  base :: "string set"
  expanded :: "string set"
  exp_reasons :: "string \<Rightarrow> string list option"

type_synonym exp_state = "string set \<times> (string \<Rightarrow> string list option)"

text \<open>
  The body of the source's inner loops, on the pair of \<open>expanded\<close> and \<open>reasons\<close>:
  add the lowercased expansion and append the provenance tag to its reasons.
\<close>

definition add_expansion :: "string \<Rightarrow> exp_state \<Rightarrow> string \<Rightarrow> exp_state" where
  "add_expansion tag st expansion =
     (let exp_lower = lower expansion
      in (insert exp_lower (fst st),
          (snd st)(exp_lower \<mapsto>
             (case snd st exp_lower of None \<Rightarrow> [] | Some l \<Rightarrow> l) @ [tag])))"

text \<open>The text-level loops add an expansion, and its tag, only when it is new.\<close>

definition add_if_new :: "string \<Rightarrow> exp_state \<Rightarrow> string \<Rightarrow> exp_state" where
  "add_if_new tag st expansion =
     (if lower expansion \<notin> fst st then add_expansion tag st expansion else st)"

definition get_or_empty :: "(string \<times> string list) list \<Rightarrow> string \<Rightarrow> string list" where
  "get_or_empty m k = (case map_of m k of None \<Rightarrow> [] | Some v \<Rightarrow> v)"

definition expand_token ::
    "SemanticContext \<Rightarrow> (string \<times> string list) list \<Rightarrow> exp_state \<Rightarrow> string \<Rightarrow> exp_state" where
  "expand_token ctx expansion_map st token =
     (let lower_token = lower token;
          st1 = (case map_of expansion_map lower_token of
                   None \<Rightarrow> st
                 | Some exps \<Rightarrow> foldl (add_expansion (''taxonomy:'' @ lower_token)) st exps)
      in case resolve_ambiguous_term lower_token ctx of
           None \<Rightarrow> st1
         | Some res \<Rightarrow>
             let st2 = (if res = Need \<and> side ctx = Demand
                        then foldl (add_expansion (''ambiguity:'' @ lower_token @ arrow @ ''need''))
                               st1 (get_or_empty DEMAND_NEED_EXPANSIONS ''hiring'')
                        else st1)
             in if res = Capability \<and> side ctx = Supply
                then foldl (add_expansion (''ambiguity:'' @ lower_token @ arrow @ ''capability''))
                       st2 (get_or_empty SUPPLY_CAPABILITY_EXPANSIONS ''recruiting'')
                else st2)"

definition recruiting_text_words :: "string list" where
  "recruiting_text_words =
     [''recruit'', ''recruiting'', ''staffing'', ''talent'', ''headhunt'', ''placement'']"

definition hiring_text_words :: "string list" where
  "hiring_text_words = [''hiring'', ''hire'', ''hires'', ''team building'', ''headcount'']"

text \<open>The loop over the tokens, from the base set and no reasons.\<close>

definition expand_tokens :: "string list \<Rightarrow> SemanticContext \<Rightarrow> exp_state" where
  "expand_tokens tokens ctx =
     (let expansion_map = (if side ctx = Demand then DEMAND_NEED_EXPANSIONS
                           else SUPPLY_CAPABILITY_EXPANSIONS)
      in foldl (expand_token ctx expansion_map) (set (map lower tokens), Map.empty) tokens)"

definition expand_semantic_signals :: "string list \<Rightarrow> SemanticContext \<Rightarrow> SemanticExpansionResult" where
  "expand_semantic_signals tokens ctx =
     (let base0 = set (map lower tokens)
      in if \<not> SEMANTIC_MATCHING_ENABLED
         then \<lparr>base = base0, expanded = base0, exp_reasons = Map.empty\<rparr>
         else
           let lower_text = lower (ctx_text ctx);
               st = expand_tokens tokens ctx;
               st1 = (if side ctx = Supply \<and> re_search (words recruiting_text_words) lower_text
                      then foldl (add_if_new ''text:recruiting_detected'') st
                             (get_or_empty SUPPLY_CAPABILITY_EXPANSIONS ''recruiting'')
                      else st);
               st2 = (if side ctx = Demand \<and> re_search (words hiring_text_words) lower_text
                      then foldl (add_if_new ''text:hiring_detected'') st1
                             (get_or_empty DEMAND_NEED_EXPANSIONS ''hiring'')
                      else st1)
           in \<lparr>base = base0, expanded = fst st2, exp_reasons = snd st2\<rparr>)"

text \<open>\<open>str.split()\<close>: the maximal runs of characters that are not white space.\<close>

fun split_ws :: "string \<Rightarrow> string \<Rightarrow> string list" where
  "split_ws cur [] = (if cur = [] then [] else [cur])"
| "split_ws cur (c # cs) =
     (if is_space_char c then (if cur = [] then split_ws [] cs else cur # split_ws [] cs)
      else split_ws (cur @ [c]) cs)"

definition extract_tokens :: "string \<Rightarrow> string list" where
  "extract_tokens txt =
     (if txt = [] then []
      else let cleaned = map (\<lambda>c. if is_word_char c \<or> is_space_char c then c else CHR '' '')
                           (lower txt)
           in filter (\<lambda>t. 2 < length t) (split_ws [] cleaned))"

record Overlap =
  overlapCount :: nat
  matchedTokens :: "string set"

definition compute_semantic_overlap :: "string set \<Rightarrow> string set \<Rightarrow> Overlap" where
  "compute_semantic_overlap demand_tokens supply_tokens =
     \<lparr>overlapCount = card (demand_tokens \<inter> supply_tokens),
      matchedTokens = demand_tokens \<inter> supply_tokens\<rparr>"

definition calculate_semantic_bonus :: "nat \<Rightarrow> int" where
  "calculate_semantic_bonus overlap_count =
     (if 5 \<le> overlap_count then 30
      else if 3 \<le> overlap_count then 20
      else if 1 \<le> overlap_count then 10
      else 0)"

record SemanticScore =
  bonus :: int
  score_overlapCount :: nat
  score_matchedTokens :: "string set"

definition get_semantic_score :: "string \<Rightarrow> string \<Rightarrow> SemanticScore" where
  "get_semantic_score demand_text supply_text =
     (let demand_tokens = extract_tokens demand_text;
          supply_tokens = extract_tokens supply_text;
          demand_result =
            expand_semantic_signals demand_tokens \<lparr>side = Demand, ctx_text = demand_text\<rparr>;
          supply_result =
            expand_semantic_signals supply_tokens \<lparr>side = Supply, ctx_text = supply_text\<rparr>;
          overlap = compute_semantic_overlap (expanded demand_result) (expanded supply_result)
      in \<lparr>bonus = calculate_semantic_bonus (overlapCount overlap),
          score_overlapCount = overlapCount overlap,
          score_matchedTokens = matchedTokens overlap\<rparr>)"

section \<open>Scoring one pair\<close>

definition weighted_total :: "int \<Rightarrow> int \<Rightarrow> int \<Rightarrow> int \<Rightarrow> int \<Rightarrow> rat" where
  "weighted_total industry_score signal_score size_score alignment_score semantic_bonus =
     fadd (fadd (fadd (fadd (fadd (fmul (of_int industry_score) (flit 15 100))
                                  (fmul (of_int signal_score) (flit 15 100)))
                            (fmul (of_int size_score) (flit 10 100)))
                      (fmul (of_int alignment_score) (flit 50 100)))
                (fmul 10 (flit 10 100)))
          (of_int semantic_bonus)"

text \<open>
  The f-string \<open>"{r.signal} {r.title} {r.company_description} {r.industry}"\<close>, built
  for the demand and for the supply record.
\<close>

definition record_text :: "NormalizedRecord \<Rightarrow> string" where
  "record_text r =
     signal r @ '' '' @ title r @ '' '' @ company_description r @ '' '' @ py_str (industry r)"

text \<open>
  The body of \<open>score_match\<close> after the profiles and the three feature scores are known:
  steps 3 to 6 of the source and the construction of the \<open>Match\<close>.
\<close>

definition assemble_match ::
    "NormalizedRecord \<Rightarrow> NormalizedRecord \<Rightarrow> NeedProfile \<Rightarrow> CapabilityProfile \<Rightarrow>
     int \<Rightarrow> int \<Rightarrow> int \<Rightarrow> Match" where
  "assemble_match d s need capability industry_score signal_score size_score =
     (let alignment_score = score_alignment need capability;
          demand_text = record_text d;
          supply_text = record_text s;
          semantic_result = get_semantic_score demand_text supply_text;
          semantic_bonus = bonus semantic_result;
          rs = opt_item (20 < industry_score) ''Industry match''
               @ opt_item (25 < signal_score) ''Signal alignment''
               @ opt_item (10 < size_score) ''Size fit''
               @ (if 40 \<le> alignment_score
                  then [category need @ '' need '' @ arrow @ '' '' @ category capability
                        @ '' capability'']
                  else opt_item (25 \<le> alignment_score) ''Cross-functional fit'')
               @ (if 20 \<le> semantic_bonus
                  then [''Strong keyword overlap (''
                        @ str_nat (score_overlapCount semantic_result) @ '' matches)'']
                  else opt_item (10 \<le> semantic_bonus)
                         (''Keyword overlap ('' @ str_nat (score_overlapCount semantic_result)
                          @ '' matches)''));
          total_score =
            min 100 (py_round (weighted_total industry_score signal_score size_score
                                 alignment_score semantic_bonus));
          tr = determine_tier total_score need capability
                 (case signal_meta d of None \<Rightarrow> None | Some sm \<Rightarrow> label sm)
      in \<lparr>demand = d, supply_rec = s,
           score = (if total_score = 0 then 1 else total_score),
           reasons = (if total_score = 0 then rs @ [''Exploratory match''] else rs),
           tier = fst tr, tier_reason = snd tr,
           need_profile = need, capability_profile = capability\<rparr>)"

definition score_match :: "NormalizedRecord \<Rightarrow> NormalizedRecord \<Rightarrow> error + Match" where
  "score_match d s =
     (let need = extract_need_from_demand d in
      bind_err (extract_capability_from_supply s) (\<lambda>capability.
      bind_err (score_industry (industry d) (industry s)) (\<lambda>industry_score.
      let signal_score = score_signal (signal d) (title s) (industry s) in
      bind_err (score_size (size_field d) (size_field s)) (\<lambda>size_score.
        Inr (assemble_match d s need capability industry_score signal_score size_score)))))"

section \<open>Matching and aggregation\<close>

definition get_demand_key :: "NormalizedRecord \<Rightarrow> string" where
  "get_demand_key d =
     (if record_key d \<noteq> [] then record_key d
      else if full_name d \<noteq> [] then full_name d
      else company d @ ''-'' @ title d)"

definition get_supply_key :: "NormalizedRecord \<Rightarrow> string" where
  "get_supply_key s =
     (if record_key s \<noteq> [] then record_key s
      else if domain s \<noteq> [] then domain s
      else if full_name s \<noteq> [] then full_name s
      else company s @ ''-'' @ title s)"

text \<open>The demand key of a match.\<close>

abbreviation (input) dkey :: "Match \<Rightarrow> string" where
  "dkey m \<equiv> get_demand_key (demand m)"

fun best_loop :: "string set \<Rightarrow> Match list \<Rightarrow> Match list" where
  "best_loop seen [] = []"
| "best_loop seen (m # ms) =
     (let key = get_demand_key (demand m)
      in if key \<notin> seen then m # best_loop (insert key seen) ms else best_loop seen ms)"

definition get_best_match_per_demand :: "Match list \<Rightarrow> Match list" where
  "get_best_match_per_demand ms = best_loop {} ms"

text \<open>
  \<open>list.sort(key=..., reverse=True)\<close> is stable: elements with equal keys keep their
  order. On integer keys it is the stable insertion sort on the negated key.
\<close>

definition sort_desc :: "('a \<Rightarrow> int) \<Rightarrow> 'a list \<Rightarrow> 'a list" where
  "sort_desc f xs = sort_key (\<lambda>x. - f x) xs"

text \<open>The dictionary \<open>by_supply\<close>, in insertion order.\<close>

fun add_to_group :: "string \<Rightarrow> Match \<Rightarrow> (string \<times> Match list) list \<Rightarrow> (string \<times> Match list) list" where
  "add_to_group k m [] = [(k, [m])]"
| "add_to_group k m ((k', ms) # rest) =
     (if k = k' then (k', ms @ [m]) # rest else (k', ms) # add_to_group k m rest)"

definition group_by_supply :: "Match list \<Rightarrow> (string \<times> Match list) list" where
  "group_by_supply ms = foldl (\<lambda>by_supply m. add_to_group (get_supply_key (supply_rec m)) m by_supply) [] ms"

definition make_aggregate :: "Match list \<Rightarrow> error + Aggregate" where
  "make_aggregate ms =
     (let supplier_matches = sort_desc score ms
      in case supplier_matches of
           [] \<Rightarrow> Inl IndexError
         | m0 # _ \<Rightarrow>
             Inr \<lparr>agg_supply = supply_rec m0, matches = supplier_matches, best_match = m0,
                  total_matches = card (set (map (\<lambda>m. get_demand_key (demand m))
                                               supplier_matches))\<rparr>)"

fun make_aggregates :: "(string \<times> Match list) list \<Rightarrow> error + Aggregate list" where
  "make_aggregates [] = Inr []"
| "make_aggregates ((k, ms) # rest) =
     bind_err (make_aggregate ms) (\<lambda>a.
     bind_err (make_aggregates rest) (\<lambda>as. Inr (a # as)))"

definition aggregate_by_supply :: "Match list \<Rightarrow> error + Aggregate list" where
  "aggregate_by_supply ms =
     bind_err (make_aggregates (group_by_supply ms)) (\<lambda>aggregates.
       Inr (sort_desc (\<lambda>a. int (total_matches a)) aggregates))"

text \<open>The two nested loops of \<open>match_records\<close>; the first exception ends them.\<close>

fun score_row :: "NormalizedRecord \<Rightarrow> NormalizedRecord list \<Rightarrow> int \<Rightarrow> error + Match list" where
  "score_row d [] min_score = Inr []"
| "score_row d (s # ss) min_score =
     bind_err (score_match d s) (\<lambda>m.
     bind_err (score_row d ss min_score) (\<lambda>rest.
       Inr (if min_score \<le> score m then m # rest else rest)))"

fun score_pairs :: "NormalizedRecord list \<Rightarrow> NormalizedRecord list \<Rightarrow> int \<Rightarrow> error + Match list" where
  "score_pairs [] supply min_score = Inr []"
| "score_pairs (d # ds) supply min_score =
     bind_err (score_row d supply min_score) (\<lambda>row.
     bind_err (score_pairs ds supply min_score) (\<lambda>rest. Inr (row @ rest)))"

definition average_score :: "Match list \<Rightarrow> error + int" where
  "average_score all_matches =
     (let scores = map score all_matches
      in if scores = [] then Inr 0
         else bind_err (int_truediv (sum_list scores) (int (length scores)))
                (\<lambda>q. Inr (py_round q)))"

text \<open>\<open>match_records\<close> without a progress callback (\<open>on_progress=None\<close>).\<close>

definition match_records ::
    "NormalizedRecord list \<Rightarrow> NormalizedRecord list \<Rightarrow> int \<Rightarrow> bool \<Rightarrow> error + MatchingResult" where
  "match_records demand_list supply_list min_score best_match_only =
     bind_err (score_pairs demand_list supply_list min_score) (\<lambda>scored.
       let all_matches = sort_desc score scored;
           dm = (if best_match_only then get_best_match_per_demand all_matches
                 else all_matches)
       in bind_err (aggregate_by_supply dm) (\<lambda>aggs.
          bind_err (average_score all_matches) (\<lambda>avg.
            Inr \<lparr>demand_matches = dm, supply_aggregates = aggs,
                 stats = \<lparr>total_demand = length demand_list,
                          total_supply = length supply_list,
                          stats_total_matches = length dm,
                          unique_demands_matched =
                            card (set (map (\<lambda>m. get_demand_key (demand m)) dm)),
                          avg_score = avg\<rparr>\<rparr>)))"

text \<open>
  The scored demand/supply pairs that pass the \<open>min_score\<close> threshold, in the words of the
  specification: every pair of a demand and a supply record whose score reaches the
  threshold, in the order of the cross product.
\<close>

definition passing_pairs :: "NormalizedRecord list \<Rightarrow> NormalizedRecord list \<Rightarrow> int \<Rightarrow> Match list" where
  "passing_pairs demand_list supply_list min_score =
     concat (map (\<lambda>d. concat (map (\<lambda>s. case score_match d s of
                                              Inl e \<Rightarrow> []
                                            | Inr m \<Rightarrow> if min_score \<le> score m then [m] else [])
                                 supply_list))
              demand_list)"

section \<open>Example records\<close>

text \<open>
  A record whose text fields are empty, apart from its industry and its key; on such records
  the need is \<open>company\<close>, the capability \<open>professional\<close> and the tier \<open>open\<close>.
\<close>

definition blank :: "string \<Rightarrow> string \<Rightarrow> NormalizedRecord" where
  "blank key ind =
     \<lparr>domain = [], company = [], full_name = [], first_name = [], last_name = [], email = [],
      title = [], industry = PStr ind, signal = [], signal_meta = None,
      company_description = [], company_funding = [], size_field = PNone, record_key = key,
      metadata = []\<rparr>"

definition company_need :: NeedProfile where
  "company_need =
     \<lparr>category = ''company'', specifics = [], confidence = flit 4 10, source = ''industry''\<rparr>"

definition professional_cap :: CapabilityProfile where
  "professional_cap =
     \<lparr>category = ''professional'', specifics = [], confidence = flit 3 10, source = ''none''\<rparr>"

definition blank_match :: "NormalizedRecord \<Rightarrow> NormalizedRecord \<Rightarrow> int \<Rightarrow> string list \<Rightarrow> Match" where
  "blank_match d s sc rs =
     \<lparr>demand = d, supply_rec = s, score = sc, reasons = rs, tier = Open,
      tier_reason = ''Company '' @ arrow @ '' Professional'',
      need_profile = company_need, capability_profile = professional_cap\<rparr>"

text \<open>Two demand records with different keys, a third that repeats the first key, two supplies.\<close>

definition d1 :: NormalizedRecord where
  "d1 = blank ''d1'' ''x''"

definition d2 :: NormalizedRecord where
  "d2 = blank ''d2'' []"

definition d1' :: NormalizedRecord where
  "d1' = blank ''d1'' []"

definition s1 :: NormalizedRecord where
  "s1 = blank ''s1'' ''x''"

definition s2 :: NormalizedRecord where
  "s2 = blank ''s2'' []"

definition m11 :: Match where
  "m11 = blank_match d1 s1 15 [''Industry match'']"

definition m12 :: Match where
  "m12 = blank_match d1 s2 12 []"

definition m21 :: Match where
  "m21 = blank_match d2 s1 12 []"

definition m22 :: Match where
  "m22 = blank_match d2 s2 12 []"

definition m1'1 :: Match where
  "m1'1 = blank_match d1' s1 12 []"

definition result_one :: MatchingResult where
  "result_one =
     \<lparr>demand_matches = [m11],
      supply_aggregates = [\<lparr>agg_supply = s1, matches = [m11], best_match = m11,
                            total_matches = 1\<rparr>],
      stats = \<lparr>total_demand = 1, total_supply = 1, stats_total_matches = 1,
               unique_demands_matched = 1, avg_score = 15\<rparr>\<rparr>"

definition result_best :: MatchingResult where
  "result_best =
     \<lparr>demand_matches = [m11, m21],
      supply_aggregates = [\<lparr>agg_supply = s1, matches = [m11, m21], best_match = m11,
                            total_matches = 2\<rparr>],
      stats = \<lparr>total_demand = 2, total_supply = 2, stats_total_matches = 2,
               unique_demands_matched = 2, avg_score = 13\<rparr>\<rparr>"

definition result_sorted :: MatchingResult where
  "result_sorted =
     \<lparr>demand_matches = [m11, m21],
      supply_aggregates = [\<lparr>agg_supply = s1, matches = [m11, m21], best_match = m11,
                            total_matches = 2\<rparr>],
      stats = \<lparr>total_demand = 2, total_supply = 1, stats_total_matches = 2,
               unique_demands_matched = 2, avg_score = 14\<rparr>\<rparr>"

definition result_same_key :: MatchingResult where
  "result_same_key =
     \<lparr>demand_matches = [m11, m1'1],
      supply_aggregates = [\<lparr>agg_supply = s1, matches = [m11, m1'1], best_match = m11,
                            total_matches = 1\<rparr>],
      stats = \<lparr>total_demand = 2, total_supply = 1, stats_total_matches = 2,
               unique_demands_matched = 1, avg_score = 14\<rparr>\<rparr>"

section \<open>Properties of the floating-point model\<close>

lemma py_round_of_int: "py_round (of_int k) = k"
  by (simp add: py_round_def)

lemma py_round_lower: "of_int (py_round x) \<ge> x - 1/2"
  unfolding py_round_def Let_def by (auto; linarith)

lemma py_round_upper: "of_int (py_round x) \<le> x + 1/2"
  unfolding py_round_def Let_def by (auto; linarith)

lemma py_round_ge_floor: "\<lfloor>x\<rfloor> \<le> py_round x"
  unfolding py_round_def Let_def by auto

lemma py_round_le_floor1: "py_round x \<le> \<lfloor>x\<rfloor> + 1"
  unfolding py_round_def Let_def by auto

lemma py_round_mono:
  assumes "x \<le> y"
  shows "py_round x \<le> py_round y"
proof (cases "\<lfloor>x\<rfloor> = \<lfloor>y\<rfloor>")
  case True
  with assms show ?thesis
    unfolding py_round_def Let_def by (auto; linarith)
next
  case False
  with assms have "\<lfloor>x\<rfloor> < \<lfloor>y\<rfloor>"
    by (meson floor_mono le_less)
  then have "py_round x \<le> \<lfloor>y\<rfloor>"
    using py_round_le_floor1 [of x] by linarith
  then show ?thesis
    using py_round_ge_floor [of y] by linarith
qed

lemma ilog2_bounds:
  assumes "0 < x"
  shows "2 powi ilog2 x \<le> x \<and> x < 2 powi (ilog2 x + 1)"
proof -
  obtain p q where pq: "quotient_of x = (p, q)"
    by (cases "quotient_of x")
  have q: "0 < q" using pq by (rule quotient_of_denom_pos)
  have x: "x = of_int p / of_int q" using pq by (rule quotient_of_div)
  have p: "0 < p" using assms q x
    by (simp add: zero_less_divide_iff)
  define e where "e = bitlen p - bitlen q"
  have bp: "2 ^ nat (bitlen p - 1) \<le> p" "p < 2 ^ nat (bitlen p)"
    using bitlen_bounds [OF p] by auto
  have bq: "2 ^ nat (bitlen q - 1) \<le> q" "q < 2 ^ nat (bitlen q)"
    using bitlen_bounds [OF q] by auto
  have bp1: "1 \<le> bitlen p" and bq1: "1 \<le> bitlen q"
    using p q by (auto simp: bitlen_alt_def)
  have P1: "(2::rat) powi (bitlen p - 1) \<le> of_int p"
  proof -
    have "(of_int (2 ^ nat (bitlen p - 1)) :: rat) \<le> of_int p"
      using bp(1) by (simp only: of_int_le_iff)
    then show ?thesis using bp1 by (simp add: power_int_def)
  qed
  have P2: "of_int p < (2::rat) powi bitlen p"
  proof -
    have "(of_int p :: rat) < of_int (2 ^ nat (bitlen p))"
      using bp(2) by (simp only: of_int_less_iff)
    then show ?thesis using bp1 by (simp add: power_int_def)
  qed
  have Q1: "(2::rat) powi (bitlen q - 1) \<le> of_int q"
  proof -
    have "(of_int (2 ^ nat (bitlen q - 1)) :: rat) \<le> of_int q"
      using bq(1) by (simp only: of_int_le_iff)
    then show ?thesis using bq1 by (simp add: power_int_def)
  qed
  have Q2: "of_int q < (2::rat) powi bitlen q"
  proof -
    have "(of_int q :: rat) < of_int (2 ^ nat (bitlen q))"
      using bq(2) by (simp only: of_int_less_iff)
    then show ?thesis using bq1 by (simp add: power_int_def)
  qed
  have lo: "2 powi (e - 1) < x"
  proof -
    have "(2::rat) powi (e - 1) = 2 powi (bitlen p - 1) / 2 powi bitlen q"
      by (simp add: e_def power_int_diff [symmetric] algebra_simps)
    also have "\<dots> \<le> of_int p / 2 powi bitlen q"
      using P1 by (simp add: divide_right_mono)
    also have "\<dots> < of_int p / of_int q"
      by (rule divide_strict_left_mono) (use Q2 p q in simp_all)
    finally show ?thesis by (simp add: x)
  qed
  have hi: "x < 2 powi (e + 1)"
  proof -
    have "x = of_int p / of_int q" by (rule x)
    also have "\<dots> < 2 powi bitlen p / of_int q"
      using P2 q by (simp add: divide_strict_right_mono)
    also have "\<dots> \<le> 2 powi bitlen p / 2 powi (bitlen q - 1)"
      by (rule frac_le) (use Q1 in simp_all)
    also have "\<dots> = 2 powi (e + 1)"
      by (simp add: e_def power_int_diff [symmetric] algebra_simps)
    finally show ?thesis .
  qed
  have step: "(2::rat) powi e = 2 * 2 powi (e - 1)"
    by (simp add: power_int_diff)
  have step2: "(2::rat) powi (e + 1) = 2 * 2 powi e"
    by (simp add: power_int_add)
  show ?thesis
  proof (cases "2 powi e \<le> x")
    case True
    then show ?thesis using hi by (simp add: ilog2_def pq e_def [symmetric] Let_def)
  next
    case False
    then show ?thesis using lo by (simp add: ilog2_def pq e_def [symmetric] Let_def)
  qed
qed

lemma powi2_mono: "a \<le> b \<Longrightarrow> (2::rat) powi a \<le> 2 powi b"
  by (rule power_int_increasing) simp_all

lemma ilog2_unique:
  assumes "0 < x" "2 powi e \<le> x" "x < 2 powi (e + 1)"
  shows "ilog2 x = e"
proof (rule antisym)
  show "ilog2 x \<le> e"
  proof (rule ccontr)
    assume "\<not> ilog2 x \<le> e"
    then have "e + 1 \<le> ilog2 x" by simp
    then have "(2::rat) powi (e + 1) \<le> 2 powi ilog2 x" by (rule powi2_mono)
    with ilog2_bounds [OF assms(1)] assms(3) show False by linarith
  qed
  show "e \<le> ilog2 x"
  proof (rule ccontr)
    assume "\<not> e \<le> ilog2 x"
    then have "ilog2 x + 1 \<le> e" by simp
    then have "(2::rat) powi (ilog2 x + 1) \<le> 2 powi e" by (rule powi2_mono)
    with ilog2_bounds [OF assms(1)] assms(2) show False by linarith
  qed
qed

lemma ilog2_mono:
  assumes "0 < x" "x \<le> y"
  shows "ilog2 x \<le> ilog2 y"
proof (rule ccontr)
  assume "\<not> ilog2 x \<le> ilog2 y"
  then have "ilog2 y + 1 \<le> ilog2 x" by simp
  then have "(2::rat) powi (ilog2 y + 1) \<le> 2 powi ilog2 x" by (rule powi2_mono)
  moreover have "0 < y" using assms by simp
  ultimately show False
    using ilog2_bounds [OF assms(1)] ilog2_bounds [of y] assms(2) by linarith
qed

lemma fl_pos: "0 < x \<Longrightarrow> fl x = of_int (py_round (x / 2 powi quantum x)) * 2 powi quantum x"
  by (simp add: fl_def)

lemma py_round_powi2: "0 \<le> k \<Longrightarrow> of_int (py_round (2 powi k)) = (2::rat) powi k"
proof -
  assume "0 \<le> k"
  then have "(2::rat) powi k = of_int (2 ^ nat k)" by (simp add: power_int_def)
  then show ?thesis by (simp only: py_round_of_int)
qed

lemma fl_le_powi2:
  assumes "0 < x" "x \<le> 2 powi b" "quantum x \<le> b"
  shows "fl x \<le> 2 powi b"
proof -
  let ?q = "quantum x"
  have "x / 2 powi ?q \<le> 2 powi b / 2 powi ?q"
    using assms(2) by (simp add: divide_right_mono)
  also have "\<dots> = 2 powi (b - ?q)" by (simp add: power_int_diff)
  finally have "py_round (x / 2 powi ?q) \<le> py_round (2 powi (b - ?q))"
    by (rule py_round_mono)
  then have "(of_int (py_round (x / 2 powi ?q)) :: rat) \<le> of_int (py_round (2 powi (b - ?q)))"
    by (simp only: of_int_le_iff)
  also have "\<dots> = 2 powi (b - ?q)" using assms(3) by (simp add: py_round_powi2)
  finally have "of_int (py_round (x / 2 powi ?q)) * 2 powi ?q \<le> 2 powi (b - ?q) * (2::rat) powi ?q"
    by (simp add: mult_right_mono)
  also have "\<dots> = 2 powi b" by (simp add: power_int_add [symmetric])
  finally show ?thesis using assms(1) by (simp add: fl_pos)
qed

lemma fl_ge_powi2:
  assumes "0 < x" "2 powi b \<le> x" "quantum x \<le> b"
  shows "2 powi b \<le> fl x"
proof -
  let ?q = "quantum x"
  have "2 powi (b - ?q) = 2 powi b / (2::rat) powi ?q" by (simp add: power_int_diff)
  also have "\<dots> \<le> x / 2 powi ?q"
    using assms(2) by (simp add: divide_right_mono)
  finally have "py_round (2 powi (b - ?q)) \<le> py_round (x / 2 powi ?q)"
    by (rule py_round_mono)
  then have "(of_int (py_round (2 powi (b - ?q))) :: rat) \<le> of_int (py_round (x / 2 powi ?q))"
    by (simp only: of_int_le_iff)
  then have "2 powi (b - ?q) \<le> (of_int (py_round (x / 2 powi ?q)) :: rat)"
    using assms(3) by (simp add: py_round_powi2)
  then have "2 powi (b - ?q) * 2 powi ?q \<le> of_int (py_round (x / 2 powi ?q)) * (2::rat) powi ?q"
    by (simp add: mult_right_mono)
  then have "2 powi b \<le> of_int (py_round (x / 2 powi ?q)) * (2::rat) powi ?q"
    by (simp add: power_int_add [symmetric])
  then show ?thesis using assms(1) by (simp add: fl_pos)
qed

lemma fl_mono_pos:
  assumes "0 < x" "x \<le> y"
  shows "fl x \<le> fl y"
proof -
  have y: "0 < y" using assms by simp
  have il: "ilog2 x \<le> ilog2 y" using assms by (rule ilog2_mono)
  have ax: "\<bar>x\<bar> = x" and ay: "\<bar>y\<bar> = y" using assms y by simp_all
  have qle: "quantum x \<le> quantum y" using il by (simp add: quantum_def ax ay)
  show ?thesis
  proof (cases "quantum x = quantum y")
    case True
    have "x / 2 powi quantum y \<le> y / 2 powi quantum y"
      using assms(2) by (simp add: divide_right_mono)
    then have "py_round (x / 2 powi quantum y) \<le> py_round (y / 2 powi quantum y)"
      by (rule py_round_mono)
    then have "(of_int (py_round (x / 2 powi quantum y)) :: rat)
                 \<le> of_int (py_round (y / 2 powi quantum y))"
      by (simp only: of_int_le_iff)
    then have "of_int (py_round (x / 2 powi quantum y)) * (2::rat) powi quantum y
                 \<le> of_int (py_round (y / 2 powi quantum y)) * 2 powi quantum y"
      by (simp add: mult_right_mono)
    then show ?thesis using assms(1) y True by (simp add: fl_pos)
  next
    case False
    with qle have lt: "quantum x < quantum y" by simp
    then have qy: "quantum y = ilog2 y - 52" and ilt: "ilog2 x < ilog2 y"
      by (auto simp: quantum_def ax ay max_def split: if_splits)
    let ?b = "ilog2 y"
    have "x < 2 powi (ilog2 x + 1)" using ilog2_bounds [OF assms(1)] by simp
    also have "\<dots> \<le> 2 powi ?b" using ilt by (intro powi2_mono) simp
    finally have xb: "x \<le> 2 powi ?b" by simp
    have "quantum x \<le> ?b" using lt qy by simp
    with assms(1) xb have 1: "fl x \<le> 2 powi ?b" by (rule fl_le_powi2)
    have "2 powi ?b \<le> y" using ilog2_bounds [OF y] by simp
    moreover have "quantum y \<le> ?b" using qy by simp
    ultimately have 2: "2 powi ?b \<le> fl y" using y by (intro fl_ge_powi2) 
    from 1 2 show ?thesis by simp
  qed
qed

lemma fl_zero: "fl 0 = 0"
  by (simp add: fl_def)

lemma fl_nonneg: "0 \<le> x \<Longrightarrow> 0 \<le> fl x"
proof (cases "x = 0")
  case True then show ?thesis by (simp add: fl_zero)
next
  case False
  assume "0 \<le> x"
  with False have x: "0 < x" by simp
  have "0 \<le> x / 2 powi quantum x" using x by simp
  then have "py_round 0 \<le> py_round (x / 2 powi quantum x)" by (rule py_round_mono)
  then have "0 \<le> py_round (x / 2 powi quantum x)" by (simp add: py_round_def)
  then show ?thesis using x by (simp add: fl_pos)
qed

lemma fl_mono:
  assumes "0 \<le> x" "x \<le> y"
  shows "fl x \<le> fl y"
proof (cases "x = 0")
  case True
  then show ?thesis using assms fl_nonneg [of y] by (simp add: fl_zero)
next
  case False
  with assms show ?thesis by (intro fl_mono_pos) simp_all
qed

lemma py_round_cert:
  assumes "2 * of_int m - 1 < 2 * x" "2 * x < 2 * of_int m + 1"
  shows "py_round x = m"
proof -
  have "of_int (py_round x) - (of_int m :: rat) < 1"
    using py_round_upper [of x] assms(2) by linarith
  then have "(of_int (py_round x - m) :: rat) < 1" by simp
  then have 1: "py_round x - m < 1" by (simp only: of_int_less_1_iff)
  have "(of_int m :: rat) - of_int (py_round x) < 1"
    using py_round_lower [of x] assms(1) by linarith
  then have "(of_int (m - py_round x) :: rat) < 1" by simp
  then have 2: "m - py_round x < 1" by (simp only: of_int_less_1_iff)
  from 1 2 show ?thesis by linarith
qed

lemma fl_cert:
  assumes "0 < x" "2 powi e \<le> x" "x < 2 powi (e + 1)"
    and "q = max e (- 1022) - 52"
    and "2 * of_int m - 1 < 2 * (x / 2 powi q)" "2 * (x / 2 powi q) < 2 * of_int m + 1"
  shows "fl x = of_int m * 2 powi q"
proof -
  have "ilog2 x = e" using assms(1-3) by (rule ilog2_unique)
  then have "quantum x = q" using assms(1,4) by (simp add: quantum_def)
  moreover have "py_round (x / 2 powi q) = m" using assms(5,6) by (rule py_round_cert)
  ultimately show ?thesis using assms(1) by (simp add: fl_pos)
qed


section \<open>Bounds of the composite score\<close>

lemma flit_15_100: "flit 15 100 = 5404319552844595 / 36028797018963968"
  unfolding flit_def
  by (subst fl_cert [where e = "- 3" and q = "- 55" and m = 5404319552844595]) simp_all

lemma flit_10_100: "flit 10 100 = 3602879701896397 / 36028797018963968"
  unfolding flit_def
  by (subst fl_cert [where e = "- 4" and q = "- 56" and m = 7205759403792794]) simp_all

lemma flit_50_100: "flit 50 100 = 1 / 2"
  unfolding flit_def
  by (subst fl_cert [where e = "- 1" and q = "- 53" and m = 4503599627370496]) simp_all

lemma fl_val_0: "fl (27021597764222975 / 36028797018963968) = 3 / 4"
  by (subst fl_cert [where e = "- 1" and q = "- 53" and m = 6755399441055744]) simp_all

lemma fl_val_1: "fl (3 / 2) = 3 / 2"
  by (subst fl_cert [where e = 0 and q = "- 52" and m = 6755399441055744]) simp_all

lemma fl_val_2: "fl (18014398509481985 / 36028797018963968) = 1 / 2"
  by (subst fl_cert [where e = "- 1" and q = "- 53" and m = 4503599627370496]) simp_all

lemma fl_val_3: "fl (2) = 2"
  by (subst fl_cert [where e = 1 and q = "- 51" and m = 4503599627370496]) simp_all

lemma fl_val_4: "fl (5 / 2) = 5 / 2"
  by (subst fl_cert [where e = 1 and q = "- 51" and m = 5629499534213120]) simp_all

lemma fl_val_5: "fl (9 / 2) = 9 / 2"
  by (subst fl_cert [where e = 2 and q = "- 50" and m = 5066549580791808]) simp_all

lemma fl_val_6: "fl (18014398509481985 / 18014398509481984) = 1"
  by (subst fl_cert [where e = 0 and q = "- 52" and m = 4503599627370496]) simp_all

lemma fl_val_7: "fl (11 / 2) = 11 / 2"
  by (subst fl_cert [where e = 2 and q = "- 50" and m = 6192449487634432]) simp_all

lemma fl_val_8: "fl (81064793292668925 / 18014398509481984) = 9 / 2"
  by (subst fl_cert [where e = 2 and q = "- 50" and m = 5066549580791808]) simp_all

lemma fl_val_9: "fl (21 / 4) = 21 / 4"
  by (subst fl_cert [where e = 2 and q = "- 50" and m = 5910974510923776]) simp_all

lemma fl_val_10: "fl (25 / 4) = 25 / 4"
  by (subst fl_cert [where e = 2 and q = "- 50" and m = 7036874417766400]) simp_all

lemma fl_val_11: "fl (15 / 2) = 15 / 2"
  by (subst fl_cert [where e = 2 and q = "- 50" and m = 8444249301319680]) simp_all

lemma fl_val_12: "fl (55 / 4) = 55 / 4"
  by (subst fl_cert [where e = 3 and q = "- 49" and m = 7740561859543040]) simp_all

lemma fl_val_13: "fl (59 / 4) = 59 / 4"
  by (subst fl_cert [where e = 3 and q = "- 49" and m = 8303511812964352]) simp_all

lemma fl_val_14: "fl (27021597764222975 / 18014398509481984) = 3 / 2"
  by (subst fl_cert [where e = 0 and q = "- 52" and m = 6755399441055744]) simp_all

lemma fl_val_15: "fl (9 / 4) = 9 / 4"
  by (subst fl_cert [where e = 1 and q = "- 51" and m = 5066549580791808]) simp_all

lemma fl_val_16: "fl (13 / 4) = 13 / 4"
  by (subst fl_cert [where e = 1 and q = "- 51" and m = 7318349394477056]) simp_all

lemma fl_val_17: "fl (43 / 4) = 43 / 4"
  by (subst fl_cert [where e = 3 and q = "- 49" and m = 6051711999279104]) simp_all

lemma fl_val_18: "fl (47 / 4) = 47 / 4"
  by (subst fl_cert [where e = 3 and q = "- 49" and m = 6614661952700416]) simp_all

lemmas fl_vals = flit_15_100 flit_10_100 flit_50_100 fl_zero fl_val_0 fl_val_1 fl_val_2 fl_val_3 fl_val_4 fl_val_5 fl_val_6 fl_val_7 fl_val_8 fl_val_9 fl_val_10 fl_val_11 fl_val_12 fl_val_13 fl_val_14 fl_val_15 fl_val_16 fl_val_17 fl_val_18

lemma weighted_total_5_5_5_5_0: "weighted_total 5 5 5 5 0 = 11 / 2"
  by (simp add: weighted_total_def fadd_def fmul_def fl_vals)

lemma weighted_total_30_5_10_15_0: "weighted_total 30 5 10 15 0 = 59 / 4"
  by (simp add: weighted_total_def fadd_def fmul_def fl_vals)

lemma weighted_total_10_5_10_15_0: "weighted_total 10 5 10 15 0 = 47 / 4"
  by (simp add: weighted_total_def fadd_def fmul_def fl_vals)

lemma fmul_nonneg: "0 \<le> a \<Longrightarrow> 0 \<le> c \<Longrightarrow> 0 \<le> fmul a c"
  unfolding fmul_def by (intro fl_nonneg mult_nonneg_nonneg)

lemma fadd_nonneg: "0 \<le> a \<Longrightarrow> 0 \<le> b \<Longrightarrow> 0 \<le> fadd a b"
  unfolding fadd_def by (intro fl_nonneg add_nonneg_nonneg)

lemma fmul_mono: "0 \<le> a \<Longrightarrow> a \<le> a' \<Longrightarrow> 0 \<le> c \<Longrightarrow> fmul a c \<le> fmul a' c"
  unfolding fmul_def by (intro fl_mono mult_nonneg_nonneg mult_right_mono)

lemma fadd_mono: "0 \<le> a \<Longrightarrow> 0 \<le> b \<Longrightarrow> a \<le> a' \<Longrightarrow> b \<le> b' \<Longrightarrow> fadd a b \<le> fadd a' b'"
  unfolding fadd_def by (intro fl_mono add_nonneg_nonneg add_mono)

lemma weighted_total_ge:
  assumes "5 \<le> i" "5 \<le> s" "5 \<le> z" "5 \<le> a" "0 \<le> b"
  shows "11 / 2 \<le> weighted_total i s z a b"
proof -
  have "weighted_total 5 5 5 5 0 \<le> weighted_total i s z a b"
    unfolding weighted_total_def
    by (intro fadd_mono fmul_mono fadd_nonneg fmul_nonneg)
       (use assms in \<open>simp_all add: flit_15_100 flit_10_100 flit_50_100\<close>)
  then show ?thesis by (simp add: weighted_total_5_5_5_5_0)
qed

lemma py_round_tie_even:
  assumes "2 * x = 2 * of_int m + 1" "even m"
  shows "py_round x = m"
proof -
  have "\<lfloor>x\<rfloor> = m" using assms(1) by (intro floor_unique) linarith+
  moreover have "x - of_int m = 1 / 2" using assms(1) by linarith
  ultimately show ?thesis using assms(2) by (simp add: py_round_def)
qed

lemma py_round_tie_odd:
  assumes "2 * x = 2 * of_int m + 1" "odd m"
  shows "py_round x = m + 1"
proof -
  have "\<lfloor>x\<rfloor> = m" using assms(1) by (intro floor_unique) linarith+
  moreover have "x - of_int m = 1 / 2" using assms(1) by linarith
  ultimately show ?thesis using assms(2) by (simp add: py_round_def)
qed

lemma py_round_11_2: "py_round (11 / 2) = 6"
  using py_round_tie_odd [of "11 / 2" 5] by simp

lemma py_round_weighted_total_ge:
  assumes "5 \<le> i" "5 \<le> s" "5 \<le> z" "5 \<le> a" "0 \<le> b"
  shows "6 \<le> py_round (weighted_total i s z a b)"
  using py_round_mono [OF weighted_total_ge [OF assms]] by (simp add: py_round_11_2)

lemma score_industry_range: "score_industry a b = Inr v \<Longrightarrow> 5 \<le> v \<and> v \<le> 30"
  by (auto simp: score_industry_def bind_err_def Let_def split: if_splits sum.splits)

lemma score_signal_range: "5 \<le> score_signal a b c \<and> score_signal a b c \<le> 40"
  by (simp add: score_signal_def Let_def)

lemma score_size_range: "score_size a b = Inr v \<Longrightarrow> 5 \<le> v \<and> v \<le> 20"
  by (auto simp: score_size_def bind_err_def Let_def split: if_splits sum.splits)

lemma score_alignment_rest_range: "5 \<le> score_alignment_rest n c \<and> score_alignment_rest n c \<le> 50"
  by (simp add: score_alignment_rest_def)

lemma score_alignment_range: "5 \<le> score_alignment n c \<and> score_alignment n c \<le> 50"
  using score_alignment_rest_range [of "category n" "category c"]
  by (simp add: score_alignment_def Let_def split: option.splits)

lemma calculate_semantic_bonus_range: "0 \<le> calculate_semantic_bonus n \<and> calculate_semantic_bonus n \<le> 30"
  by (simp add: calculate_semantic_bonus_def)

lemma bonus_get_semantic_score: "0 \<le> bonus (get_semantic_score a b)"
  using calculate_semantic_bonus_range by (simp add: get_semantic_score_def Let_def)


lemma score_match_Inr:
  assumes "score_match d s = Inr m"
  obtains cap i z where
    "extract_capability_from_supply s = Inr cap"
    "score_industry (industry d) (industry s) = Inr i"
    "score_size (size_field d) (size_field s) = Inr z"
    "m = assemble_match d s (extract_need_from_demand d) cap i
           (score_signal (signal d) (title s) (industry s)) z"
  using assms
  by (auto simp: score_match_def bind_err_def Let_def split: sum.splits)

lemma total_score_ge:
  assumes "5 \<le> i" "5 \<le> sg" "5 \<le> z"
  shows "6 \<le> min 100 (py_round (weighted_total i sg z (score_alignment n c)
                                 (bonus (get_semantic_score a b))))"
  using py_round_weighted_total_ge [OF assms, of "score_alignment n c"
          "bonus (get_semantic_score a b)"] score_alignment_range [of n c]
        bonus_get_semantic_score [of a b]
  by simp

lemma assemble_match_score:
  assumes "5 \<le> i" "5 \<le> sg" "5 \<le> z"
  shows "6 \<le> score (assemble_match d s n c i sg z) \<and> score (assemble_match d s n c i sg z) \<le> 100"
  using total_score_ge [OF assms, of n c "record_text d" "record_text s"]
  by (simp add: assemble_match_def Let_def)

lemma reason_neq_exploratory:
  "x @ '' need '' @ arrow @ '' '' @ y @ '' capability'' \<noteq> ''Exploratory match''"
proof
  assume "x @ '' need '' @ arrow @ '' '' @ y @ '' capability'' = ''Exploratory match''"
  then have "last (x @ '' need '' @ arrow @ '' '' @ y @ '' capability'') = last ''Exploratory match''"
    by (rule arg_cong)
  then show False by simp
qed

lemma assemble_match_reasons:
  assumes "5 \<le> i" "5 \<le> sg" "5 \<le> z"
  shows "''Exploratory match'' \<notin> set (reasons (assemble_match d s n c i sg z))"
  using total_score_ge [OF assms, of n c "record_text d" "record_text s"] reason_neq_exploratory
  by (auto simp: assemble_match_def Let_def opt_item_def)

lemma score_match_bounds:
  assumes "score_match d s = Inr m"
  shows "6 \<le> score m \<and> score m \<le> 100 \<and> ''Exploratory match'' \<notin> set (reasons m)"
proof -
  from assms obtain cap i z where *:
    "score_industry (industry d) (industry s) = Inr i"
    "score_size (size_field d) (size_field s) = Inr z"
    "m = assemble_match d s (extract_need_from_demand d) cap i
           (score_signal (signal d) (title s) (industry s)) z"
    by (rule score_match_Inr)
  have "5 \<le> i" using score_industry_range [OF *(1)] by simp
  moreover have "5 \<le> z" using score_size_range [OF *(2)] by simp
  moreover have "5 \<le> score_signal (signal d) (title s) (industry s)"
    using score_signal_range by simp
  ultimately show ?thesis
    using assemble_match_score assemble_match_reasons unfolding *(3) by blast
qed

section \<open>Scoring the example records\<close>

lemmas re_simps = re_search_def match_here.simps search_from.simps boundary_left_def
  boundary_right_def word_boundary_def is_word_char_def is_upper_def is_lower_def is_digit_def
  lits_def words_def

lemma lower_x: "lower ''x'' = ''x''" "lower [] = []"
  by (simp_all add: lower_def lower_char_def is_upper_def)

lemma need_blank:
  "ind \<in> {[], ''x''} \<Longrightarrow> extract_need_from_demand (blank k ind) = company_need"
  by (auto simp: extract_need_from_demand_def blank_def is_hiring_data_def lower_x company_need_def
      funding_words_def re_simps opt_item_def)

lemma cap_blank:
  "ind \<in> {[], ''x''} \<Longrightarrow> extract_capability_from_supply (blank k ind) = Inr professional_cap"
  by (auto simp: extract_capability_from_supply_def capability_of_def bind_err_def blank_def lower_x
       professional_cap_def recruiting_trigger_def re_simps opt_item_def str_in_def)


lemma score_industry_blank:
  "score_industry (PStr ''x'') (PStr ''x'') = Inr 30"
  "score_industry (PStr []) v = Inr 10"
  "score_industry v (PStr []) = Inr 10"
  by (simp_all add: score_industry_def bind_err_def)

lemma score_signal_blank: "score_signal [] t v = 5"
  by (simp add: score_signal_def)

lemma score_size_blank: "score_size PNone v = Inr 10"
  by (simp add: score_size_def)

lemma score_alignment_blank: "score_alignment company_need professional_cap = 15"
  by (simp add: score_alignment_def score_alignment_rest_def company_need_def
      professional_cap_def industry_matches_def cross_matches_def)

lemma record_text_blank: "record_text (blank k ind) = ''   '' @ ind"
  by (simp add: record_text_def blank_def)

lemma extract_tokens_blank: "extract_tokens ''   '' = []" "extract_tokens ''   x'' = []"
  by (simp_all add: extract_tokens_def lower_def lower_char_def is_upper_def is_word_char_def
      is_lower_def is_digit_def is_space_char_def)

lemma expand_blank:
  "ind \<in> {[], ''x''} \<Longrightarrow>
   expanded (expand_semantic_signals [] \<lparr>side = sd, ctx_text = ''   '' @ ind\<rparr>) = {}"
  by (cases sd)
     (auto simp: expand_semantic_signals_def expand_tokens_def SEMANTIC_MATCHING_ENABLED_def lower_def lower_char_def
       recruiting_text_words_def hiring_text_words_def re_simps)

lemma blank_sel:
  "signal_meta (blank k i) = None" "industry (blank k i) = PStr i" "signal (blank k i) = []"
  "title (blank k i) = []" "size_field (blank k i) = PNone" "record_key (blank k i) = k"
  "company_description (blank k i) = []" "company (blank k i) = []"
  "company_funding (blank k i) = []" "full_name (blank k i) = []" "domain (blank k i) = []"
  by (simp_all add: blank_def)

lemma semantic_blank:
  assumes "i1 \<in> {[], ''x''}" "i2 \<in> {[], ''x''}"
  shows "get_semantic_score (record_text (blank k1 i1)) (record_text (blank k2 i2))
         = \<lparr>bonus = 0, score_overlapCount = 0, score_matchedTokens = {}\<rparr>"
proof -
  have t1: "extract_tokens (''   '' @ i1) = []" and t2: "extract_tokens (''   '' @ i2) = []"
    using assms extract_tokens_blank by auto
  show ?thesis
    using expand_blank [OF assms(1), of Demand] expand_blank [OF assms(2), of Supply] t1 t2
    by (simp add: get_semantic_score_def record_text_blank Let_def
        compute_semantic_overlap_def calculate_semantic_bonus_def)
qed

lemma determine_tier_blank:
  "sc < 30 \<Longrightarrow> determine_tier sc company_need professional_cap None
                = (Open, ''Company '' @ arrow @ '' Professional'')"
  by (simp add: determine_tier_def Let_def company_need_def professional_cap_def
      need_labels_def cap_labels_def)

lemma py_round_59_4: "py_round (59 / 4) = 15"
  by (rule py_round_cert) simp_all

lemma py_round_47_4: "py_round (47 / 4) = 12"
  by (rule py_round_cert) simp_all

lemma assemble_blank_x:
  "assemble_match (blank k1 ''x'') (blank k2 ''x'') company_need professional_cap 30 5 10
     = blank_match (blank k1 ''x'') (blank k2 ''x'') 15 [''Industry match'']"
  using semantic_blank [of "''x''" "''x''" k1 k2]
  by (simp add: assemble_match_def Let_def score_alignment_blank weighted_total_30_5_10_15_0
      py_round_59_4 determine_tier_blank blank_match_def opt_item_def blank_sel)

lemma assemble_blank_other:
  assumes "i1 \<in> {[], ''x''}" "i2 \<in> {[], ''x''}"
  shows "assemble_match (blank k1 i1) (blank k2 i2) company_need professional_cap 10 5 10
     = blank_match (blank k1 i1) (blank k2 i2) 12 []"
  using semantic_blank [OF assms, of k1 k2]
  by (simp add: assemble_match_def Let_def score_alignment_blank weighted_total_10_5_10_15_0
      py_round_47_4 determine_tier_blank blank_match_def opt_item_def blank_sel)

lemma score_match_blank_x:
  "score_match (blank k1 ''x'') (blank k2 ''x'')
     = Inr (blank_match (blank k1 ''x'') (blank k2 ''x'') 15 [''Industry match''])"
  by (simp add: score_match_def need_blank cap_blank bind_err_def assemble_blank_x blank_sel
      score_industry_blank score_signal_blank score_size_blank)

lemma score_match_blank_dx:
  "i2 \<in> {[], ''x''} \<Longrightarrow> score_match (blank k1 []) (blank k2 i2)
     = Inr (blank_match (blank k1 []) (blank k2 i2) 12 [])"
  by (simp add: score_match_def need_blank cap_blank bind_err_def assemble_blank_other blank_sel
      score_industry_blank score_signal_blank score_size_blank)

lemma score_match_blank_sx:
  "i1 \<in> {[], ''x''} \<Longrightarrow> score_match (blank k1 i1) (blank k2 [])
     = Inr (blank_match (blank k1 i1) (blank k2 []) 12 [])"
  by (simp add: score_match_def need_blank cap_blank bind_err_def assemble_blank_other blank_sel
      score_industry_blank score_signal_blank score_size_blank)

section \<open>Properties of matching and aggregation\<close>

lemma bind_err_Inr: "bind_err m f = Inr v \<longleftrightarrow> (\<exists>x. m = Inr x \<and> f x = Inr v)"
  by (cases m) (simp_all add: bind_err_def)

lemma score_row_set:
  "score_row d ss ms = Inr row \<Longrightarrow>
   set row = {m. \<exists>s \<in> set ss. score_match d s = Inr m \<and> ms \<le> score m}"
proof (induction ss arbitrary: row)
  case Nil
  then show ?case by simp
next
  case (Cons s ss)
  from Cons.prems obtain m rest where
    m: "score_match d s = Inr m" and rest: "score_row d ss ms = Inr rest"
    and row: "row = (if ms \<le> score m then m # rest else rest)"
    by (auto simp: bind_err_Inr)
  show ?case using Cons.IH [OF rest] m by (auto simp: row)
qed

lemma score_pairs_set:
  "score_pairs ds ss ms = Inr scored \<Longrightarrow>
   set scored = {m. \<exists>d \<in> set ds. \<exists>s \<in> set ss. score_match d s = Inr m \<and> ms \<le> score m}"
proof (induction ds arbitrary: scored)
  case Nil
  then show ?case by simp
next
  case (Cons d ds)
  from Cons.prems obtain row rest where
    row: "score_row d ss ms = Inr row" and rest: "score_pairs ds ss ms = Inr rest"
    and sc: "scored = row @ rest"
    by (auto simp: bind_err_Inr)
  show ?case using Cons.IH [OF rest] score_row_set [OF row] by (auto simp: sc)
qed

lemma set_sort_desc: "set (sort_desc f xs) = set xs"
  by (simp add: sort_desc_def)

lemma sum_list_insort_key:
  "sum_list (map g (insort_key k x xs)) = (g x :: int) + sum_list (map g xs)"
  by (induction xs) auto

lemma sum_list_sort_desc: "sum_list (map g (sort_desc f xs)) = (sum_list (map g xs) :: int)"
  by (induction xs) (simp_all add: sort_desc_def sort_key_def sum_list_insort_key)

lemma length_sort_desc: "length (sort_desc f xs) = length xs"
  by (simp add: sort_desc_def)

lemma sorted_sort_desc: "sorted_wrt (\<lambda>a b. f b \<le> f a) (sort_desc f xs)"
proof -
  have "sorted (map (\<lambda>x. - f x) (sort_key (\<lambda>x. - f x) xs))" by (rule sorted_sort_key)
  then show ?thesis by (simp add: sort_desc_def sorted_map)
qed

lemma best_loop_subset: "set (best_loop seen ms) \<subseteq> set ms"
  by (induction ms arbitrary: seen) (auto simp: Let_def)

lemma best_loop_keys:
  "dkey ` set (best_loop seen ms) = dkey ` set ms - seen"
  by (induction ms arbitrary: seen) (auto simp: Let_def)

lemma best_loop_distinct: "distinct (map dkey (best_loop seen ms))"
proof (induction ms arbitrary: seen)
  case Nil
  then show ?case by simp
next
  case (Cons m ms)
  show ?case using Cons.IH best_loop_keys [of "insert (dkey m) seen" ms]
    by (auto simp: Let_def)
qed

lemma best_loop_sorted:
  "sorted_wrt P ms \<Longrightarrow> sorted_wrt P (best_loop seen ms)"
proof (induction ms arbitrary: seen)
  case Nil
  then show ?case by simp
next
  case (Cons m ms)
  then show ?case using best_loop_subset [of "insert (dkey m) seen" ms]
    by (auto simp: Let_def)
qed

lemma best_loop_max:
  assumes "sorted_wrt (\<lambda>a b. score b \<le> score a) ms"
    and "m \<in> set (best_loop seen ms)" and "m' \<in> set ms" and "dkey m' = dkey m"
  shows "score m' \<le> score m"
  using assms
proof (induction ms arbitrary: seen)
  case Nil
  then show ?case by simp
next
  case (Cons x xs)
  show ?case
  proof (cases "dkey x \<in> seen")
    case True
    with Cons.prems have m: "m \<in> set (best_loop seen xs)" by (simp add: Let_def)
    then have "dkey m \<notin> seen" using best_loop_keys [of seen xs] by auto
    with True Cons.prems have "m' \<in> set xs" by auto
    with Cons.IH [OF _ m _ Cons.prems(4)] Cons.prems(1) show ?thesis by simp
  next
    case False
    with Cons.prems consider "m = x" | "m \<in> set (best_loop (insert (dkey x) seen) xs)"
      by (auto simp: Let_def)
    then show ?thesis
    proof cases
      case 1
      with Cons.prems show ?thesis by auto
    next
      case 2
      then have "dkey m \<noteq> dkey x" using best_loop_keys [of "insert (dkey x) seen" xs] by auto
      with Cons.prems have "m' \<in> set xs" by auto
      with Cons.IH [OF _ 2 _ Cons.prems(4)] Cons.prems(1) show ?thesis by simp
    qed
  qed
qed


lemma add_to_group_sets:
  "(\<Union>g \<in> set (add_to_group k m gs). set (snd g)) = insert m (\<Union>g \<in> set gs. set (snd g))"
proof (induction gs)
  case Nil
  show ?case by simp
next
  case (Cons g gs)
  obtain k' ms' where g: "g = (k', ms')" by (cases g)
  show ?case
  proof (cases "k = k'")
    case True
    then show ?thesis by (auto simp: g)
  next
    case False
    then show ?thesis by (simp add: g Cons.IH)
  qed
qed

lemma foldl_add_to_group_sets:
  "(\<Union>g \<in> set (foldl (\<lambda>acc m. add_to_group (kf m) m acc) gs ms). set (snd g))
     = set ms \<union> (\<Union>g \<in> set gs. set (snd g))"
proof (induction ms arbitrary: gs)
  case Nil
  show ?case by simp
next
  case (Cons m ms)
  show ?case by (simp add: Cons.IH add_to_group_sets)
qed

lemma group_by_supply_sets: "(\<Union>g \<in> set (group_by_supply ms). set (snd g)) = set ms"
  using foldl_add_to_group_sets [of "\<lambda>m. get_supply_key (supply_rec m)" "[]" ms]
  by (simp add: group_by_supply_def)

lemma make_aggregate_Inr:
  assumes "make_aggregate ms = Inr a"
  shows "matches a = sort_desc score ms"
    and "total_matches a = card (dkey ` set (matches a))"
    and "matches a \<noteq> []"
  using assms by (auto simp: make_aggregate_def Let_def split: list.splits)

lemma make_aggregates_Inr:
  "make_aggregates gs = Inr aggs \<Longrightarrow> a \<in> set aggs \<Longrightarrow>
   \<exists>g \<in> set gs. make_aggregate (snd g) = Inr a"
proof (induction gs arbitrary: aggs)
  case Nil
  then show ?case by simp
next
  case (Cons g gs)
  obtain k ms where g: "g = (k, ms)" by (cases g)
  from Cons.prems(1) obtain a0 rest where
    a0: "make_aggregate ms = Inr a0" and rest: "make_aggregates gs = Inr rest"
    and aggs: "aggs = a0 # rest"
    by (auto simp: g bind_err_Inr)
  show ?case
  proof (cases "a = a0")
    case True
    then show ?thesis using a0 by (simp add: g)
  next
    case False
    with Cons.prems(2) aggs have "a \<in> set rest" by simp
    from Cons.IH [OF rest this] show ?thesis by auto
  qed
qed

lemma aggregate_by_supply_Inr:
  assumes "aggregate_by_supply ms = Inr aggs"
  shows "sorted_wrt (\<lambda>a b. total_matches b \<le> total_matches a) aggs"
    and "a \<in> set aggs \<Longrightarrow> set (matches a) \<subseteq> set ms"
    and "a \<in> set aggs \<Longrightarrow> total_matches a = card (dkey ` set (matches a))"
    and "a \<in> set aggs \<Longrightarrow> sorted_wrt (\<lambda>x y. score y \<le> score x) (matches a)"
proof -
  from assms obtain as where as: "make_aggregates (group_by_supply ms) = Inr as"
    and aggs: "aggs = sort_desc (\<lambda>a. int (total_matches a)) as"
    by (auto simp: aggregate_by_supply_def bind_err_Inr)
  show "sorted_wrt (\<lambda>a b. total_matches b \<le> total_matches a) aggs"
    using sorted_sort_desc [of "\<lambda>a. int (total_matches a)" as] by (simp add: aggs)
  assume "a \<in> set aggs"
  then have "a \<in> set as" by (simp add: aggs set_sort_desc)
  from make_aggregates_Inr [OF as this] obtain g where
    g: "g \<in> set (group_by_supply ms)" and a: "make_aggregate (snd g) = Inr a" by auto
  have "set (snd g) \<subseteq> (\<Union>g \<in> set (group_by_supply ms). set (snd g))" using g by blast
  then have "set (snd g) \<subseteq> set ms" by (simp only: group_by_supply_sets)
  then show "set (matches a) \<subseteq> set ms"
    by (simp add: make_aggregate_Inr(1) [OF a] set_sort_desc)
  show "total_matches a = card (dkey ` set (matches a))" by (rule make_aggregate_Inr(2) [OF a])
  show "sorted_wrt (\<lambda>x y. score y \<le> score x) (matches a)"
    by (simp add: make_aggregate_Inr(1) [OF a] sorted_sort_desc)
qed

lemma match_records_Inr:
  assumes "match_records D S ms b = Inr res"
  obtains scored where
    "score_pairs D S ms = Inr scored"
    "demand_matches res = (if b then get_best_match_per_demand (sort_desc score scored)
                           else sort_desc score scored)"
    "aggregate_by_supply (demand_matches res) = Inr (supply_aggregates res)"
    "average_score (sort_desc score scored) = Inr (avg_score (stats res))"
  using assms by (auto simp: match_records_def bind_err_Inr Let_def)

lemma demand_matches_subset:
  assumes "match_records D S ms b = Inr res" and "m \<in> set (demand_matches res)"
  shows "\<exists>d \<in> set D. \<exists>s \<in> set S. score_match d s = Inr m \<and> ms \<le> score m"
proof -
  from assms(1) obtain scored where sc: "score_pairs D S ms = Inr scored"
    and dm: "demand_matches res = (if b then get_best_match_per_demand (sort_desc score scored)
                           else sort_desc score scored)"
    by (rule match_records_Inr)
  have "m \<in> set scored"
    using assms(2) best_loop_subset [of "{}" "sort_desc score scored"]
    by (auto simp: dm get_best_match_per_demand_def set_sort_desc split: if_splits)
  then show ?thesis using score_pairs_set [OF sc] by auto
qed

lemma fl_51_4: "fl (51 / 4) = 51 / 4"
  by (subst fl_cert [where e = 3 and q = "- 49" and m = 7177611906121728]) simp_all

lemma fl_15: "fl (15) = 15"
  by (subst fl_cert [where e = 3 and q = "- 49" and m = 8444249301319680]) simp_all

lemma fl_27_2: "fl (27 / 2) = 27 / 2"
  by (subst fl_cert [where e = 3 and q = "- 49" and m = 7599824371187712]) simp_all

lemma py_round_51_4: "py_round (51 / 4) = 13"
  by (rule py_round_cert) simp_all

lemma py_round_27_2: "py_round (27 / 2) = 14"
  using py_round_tie_odd [of "27 / 2" 13] by simp

lemma py_round_15: "py_round 15 = 15"
  using py_round_of_int [of 15] by simp

lemma score_match_examples:
  "score_match d1 s1 = Inr m11" "score_match d1 s2 = Inr m12"
  "score_match d2 s1 = Inr m21" "score_match d2 s2 = Inr m22"
  "score_match d1' s1 = Inr m1'1"
  by (simp_all add: d1_def d2_def d1'_def s1_def s2_def m11_def m12_def m21_def m22_def m1'1_def
      score_match_blank_x score_match_blank_dx score_match_blank_sx)

lemma example_sel:
  "score m11 = 15" "score m12 = 12" "score m21 = 12" "score m22 = 12" "score m1'1 = 12"
  "demand m11 = d1" "demand m12 = d1" "demand m21 = d2" "demand m22 = d2" "demand m1'1 = d1'"
  "supply_rec m11 = s1" "supply_rec m12 = s2" "supply_rec m21 = s1" "supply_rec m22 = s2"
  "supply_rec m1'1 = s1"
  by (simp_all add: m11_def m12_def m21_def m22_def m1'1_def blank_match_def)

lemma example_keys:
  "get_demand_key d1 = ''d1''" "get_demand_key d2 = ''d2''" "get_demand_key d1' = ''d1''"
  "get_supply_key s1 = ''s1''" "get_supply_key s2 = ''s2''"
  by (simp_all add: get_demand_key_def get_supply_key_def d1_def d2_def d1'_def s1_def s2_def
      blank_sel)

lemmas match_records_eval = match_records_def bind_err_def sort_desc_def sort_key_def
  get_best_match_per_demand_def Let_def aggregate_by_supply_def group_by_supply_def
  make_aggregate_def average_score_def int_truediv_def score_match_examples example_sel
  example_keys

lemma match_records_ex1: "match_records [d1] [s1] 0 False = Inr result_one"
  by (simp add: match_records_eval result_one_def fl_15 py_round_15)

lemma match_records_ex2: "match_records [d1, d2] [s1, s2] 0 True = Inr result_best"
  by (simp add: match_records_eval result_best_def fl_51_4 py_round_51_4)

lemma match_records_ex3: "match_records [d2, d1] [s1] 0 False = Inr result_sorted"
  by (simp add: match_records_eval result_sorted_def fl_27_2 py_round_27_2)

lemma match_records_ex4: "match_records [d1, d1'] [s1] 0 False = Inr result_same_key"
  by (simp add: match_records_eval result_same_key_def fl_27_2 py_round_27_2)

lemma fl_repr:
  assumes "0 < m" "m < 2 ^ 53" "- 1074 \<le> e"
  shows "fl (of_int m * 2 powi e) = of_int m * 2 powi e"
proof -
  let ?x = "of_int m * (2::rat) powi e"
  have x: "0 < ?x" using assms(1) by simp
  have "(of_int m :: rat) < of_int (2 ^ 53)" using assms(2) by (simp only: of_int_less_iff)
  then have "?x < 2 ^ 53 * 2 powi e" by (simp add: mult_strict_right_mono)
  also have "\<dots> = 2 powi (53 + e)" by (simp add: power_int_add)
  finally have hi: "?x < 2 powi (53 + e)" .
  have il: "ilog2 ?x \<le> 52 + e"
  proof (rule ccontr)
    assume "\<not> ilog2 ?x \<le> 52 + e"
    then have "53 + e \<le> ilog2 ?x" by simp
    then have "(2::rat) powi (53 + e) \<le> 2 powi ilog2 ?x" by (rule powi2_mono)
    with ilog2_bounds [OF x] hi show False by linarith
  qed
  define q where "q = quantum ?x"
  have qe: "q \<le> e" using il assms(3) x by (simp add: q_def quantum_def)
  have "?x / 2 powi q = of_int m * 2 powi (e - q)"
    by (simp add: power_int_diff)
  also have "\<dots> = of_int (m * 2 ^ nat (e - q))" using qe by (simp add: power_int_def)
  finally have "py_round (?x / 2 powi q) = m * 2 ^ nat (e - q)"
    by (simp only: py_round_of_int)
  then have "fl ?x = of_int (m * 2 ^ nat (e - q)) * 2 powi q"
    using x by (simp add: fl_pos q_def)
  also have "\<dots> = of_int m * (2 powi (e - q) * 2 powi q)"
    using qe by (simp add: power_int_def)
  also have "2 powi (e - q) * 2 powi q = (2::rat) powi e"
    by (simp add: power_int_add [symmetric])
  finally show ?thesis .
qed

lemma py_round_fl_half:
  assumes "0 \<le> j" "j < 2 ^ 53"
  shows "fl (of_int j / 2) = of_int j / 2"
proof (cases "j = 0")
  case True
  then show ?thesis by (simp add: fl_zero)
next
  case False
  with assms have "0 < j" by simp
  from fl_repr [OF this assms(2), of "- 1"] show ?thesis by (simp add: power_int_minus)
qed

lemma py_round_fl_quotient:
  assumes "0 \<le> s" "0 < n" "s \<le> 100 * n" "n \<le> 2 ^ 45"
  shows "py_round (fl (of_int s / of_int n)) = py_round (of_int s / of_int n)"
proof -
  define q :: rat where "q = of_int s / of_int n"
  define k where "k = py_round q"
  have n: "(0::rat) < of_int n" using assms(2) by simp
  have q0: "0 \<le> q" using assms(1,2) by (simp add: q_def)
  have "of_int s \<le> (100 * of_int n :: rat)"
    using assms(3) by (metis of_int_le_iff of_int_mult of_int_numeral)
  then have q100: "q \<le> 100" using n by (simp add: q_def pos_divide_le_eq)
  have k0: "0 \<le> k" using py_round_mono [OF q0] unfolding k_def by (simp add: py_round_def)
  have "py_round q \<le> py_round (of_int 100)" using q100 by (intro py_round_mono) simp
  then have k100: "k \<le> 100" unfolding k_def by (simp only: py_round_of_int)
  have lo: "2 * of_int k - 1 \<le> 2 * q" using py_round_upper [of q] unfolding k_def by linarith
  have hi: "2 * q \<le> 2 * of_int k + 1" using py_round_lower [of q] unfolding k_def by linarith
  have ninv: "1 / 2 ^ 45 \<le> 1 / (of_int n :: rat)"
  proof -
    have "(of_int n :: rat) \<le> of_int (2 ^ 45)" using assms(4) by (simp only: of_int_le_iff)
    then show ?thesis using n by (simp add: frac_le)
  qed
  have qn: "q * of_int n = of_int s" using n by (simp add: q_def)
  consider "2 * q = 2 * of_int k - 1" | "2 * q = 2 * of_int k + 1"
    | "2 * of_int k - 1 < 2 * q" "2 * q < 2 * of_int k + 1"
    using lo hi by linarith
  then have "py_round (fl q) = k"
  proof cases
    case 1
    then have qeq: "q = of_int (2 * k - 1) / 2" by simp
    have "0 \<le> of_int (2 * k - 1) / (2::rat)" using q0 by (simp only: qeq)
    then have "0 \<le> 2 * k - 1" by (simp only: zero_le_divide_iff of_int_0_le_iff) simp
    moreover have "2 * k - 1 < 2 ^ 53" using k100 by simp
    ultimately have "fl (of_int (2 * k - 1) / 2) = of_int (2 * k - 1) / 2"
      by (rule py_round_fl_half)
    then have "fl q = q" by (simp only: qeq)
    then show ?thesis by (simp add: k_def)
  next
    case 2
    then have qeq: "q = of_int (2 * k + 1) / 2" by simp
    have "0 \<le> 2 * k + 1" using k0 by simp
    moreover have "2 * k + 1 < 2 ^ 53" using k100 by simp
    ultimately have "fl (of_int (2 * k + 1) / 2) = of_int (2 * k + 1) / 2"
      by (rule py_round_fl_half)
    then have "fl q = q" by (simp only: qeq)
    then show ?thesis by (simp add: k_def)
  next
    case 3
    have nz: "(of_int n :: rat) \<noteq> 0" using n by simp
    have e1: "(2 * q) * of_int n = (of_int (2 * s) :: rat)" using qn by (simp add: mult.assoc)
    have e2: "(2 * of_int k - 1) * of_int n = (of_int ((2 * k - 1) * n) :: rat)" by simp
    have e3: "(2 * of_int k + 1) * of_int n = (of_int ((2 * k + 1) * n) :: rat)" by simp
    have "(of_int ((2 * k - 1) * n) :: rat) < of_int (2 * s)"
      using mult_strict_right_mono [OF 3(1) n] unfolding e1 e2 .
    then have "(2 * k - 1) * n < 2 * s" by (simp only: of_int_less_iff)
    then have "(2 * k - 1) * n + 1 \<le> 2 * s" by simp
    then have "(of_int ((2 * k - 1) * n + 1) :: rat) \<le> of_int (2 * s)"
      by (simp only: of_int_le_iff)
    then have "(2 * of_int k - 1) * of_int n + 1 \<le> (2 * q) * (of_int n :: rat)"
      unfolding e1 by simp
    then have "((2 * of_int k - 1) * of_int n + 1) / of_int n \<le> ((2 * q) * of_int n) / (of_int n :: rat)"
      using n by (intro divide_right_mono) simp_all
    then have "2 * of_int k - 1 + 1 / of_int n \<le> (2 * q :: rat)"
      using nz by (simp add: add_divide_distrib)
    with ninv have lo': "of_int k - 1 / 2 + 1 / 2 ^ 46 \<le> q" by simp
    have "(of_int (2 * s) :: rat) < of_int ((2 * k + 1) * n)"
      using mult_strict_right_mono [OF 3(2) n] unfolding e1 e3 .
    then have "2 * s < (2 * k + 1) * n" by (simp only: of_int_less_iff)
    then have "2 * s + 1 \<le> (2 * k + 1) * n" by simp
    then have "(of_int (2 * s + 1) :: rat) \<le> of_int ((2 * k + 1) * n)"
      by (simp only: of_int_le_iff)
    then have "(2 * q) * (of_int n :: rat) + 1 \<le> (2 * of_int k + 1) * of_int n"
      unfolding e1 by simp
    then have "((2 * q) * of_int n + 1) / of_int n \<le> ((2 * of_int k + 1) * of_int n) / (of_int n :: rat)"
      using n by (intro divide_right_mono) simp_all
    then have "(2 * q :: rat) + 1 / of_int n \<le> 2 * of_int k + 1"
      using nz by (simp add: add_divide_distrib)
    with ninv have hi': "q \<le> of_int k + 1 / 2 - 1 / 2 ^ 46" by simp
    have up: "fl q \<le> of_int k + 1 / 2 - 1 / 2 ^ 46"
    proof -
      let ?M = "(2 * k + 1) * 2 ^ 45 - 1"
      have M: "0 < ?M" "?M < 2 ^ 53" using k0 k100 by simp_all
      have eq: "of_int ?M * 2 powi (- 46) = (of_int k + 1 / 2 - 1 / 2 ^ 46 :: rat)"
        by (simp add: power_int_minus field_simps)
      have "fl q \<le> fl (of_int ?M * 2 powi (- 46))"
        using q0 hi' by (intro fl_mono) (simp_all only: eq)
      also have "\<dots> = of_int ?M * 2 powi (- 46)" using M by (intro fl_repr) simp_all
      finally show ?thesis by (simp only: eq)
    qed
    have dn: "of_int k - 1 / 2 < fl q"
    proof (cases "k = 0")
      case True
      then show ?thesis using fl_nonneg [OF q0] by simp
    next
      case False
      let ?M = "(2 * k - 1) * 2 ^ 45 + 1"
      have M: "0 < ?M" "?M < 2 ^ 53" using False k0 k100 by simp_all
      have eq: "of_int ?M * 2 powi (- 46) = (of_int k - 1 / 2 + 1 / 2 ^ 46 :: rat)"
        by (simp add: power_int_minus field_simps)
      have pos: "(0::rat) \<le> of_int ?M * 2 powi (- 46)" using M(1) by simp
      have "of_int ?M * 2 powi (- 46) = fl (of_int ?M * 2 powi (- 46))"
        using M by (intro fl_repr [symmetric]) simp_all
      also have "\<dots> \<le> fl q"
        using pos lo' by (intro fl_mono) (simp_all only: eq)
      finally show ?thesis by (simp add: eq)
    qed
    show ?thesis by (rule py_round_cert) (use up dn in simp_all)
  qed
  then show ?thesis by (simp add: k_def q_def)
qed

lemma score_row_eq:
  "score_row d ss ms = Inr row \<Longrightarrow>
   row = concat (map (\<lambda>s. case score_match d s of Inl e \<Rightarrow> []
                            | Inr m \<Rightarrow> if ms \<le> score m then [m] else []) ss)"
proof (induction ss arbitrary: row)
  case Nil
  then show ?case by simp
next
  case (Cons s ss)
  from Cons.prems obtain m rest where
    m: "score_match d s = Inr m" and rest: "score_row d ss ms = Inr rest"
    and row: "row = (if ms \<le> score m then m # rest else rest)"
    by (auto simp: bind_err_Inr)
  show ?case using Cons.IH [OF rest] m by (simp add: row)
qed

lemma score_pairs_eq:
  "score_pairs ds ss ms = Inr scored \<Longrightarrow> scored = passing_pairs ds ss ms"
proof (induction ds arbitrary: scored)
  case Nil
  then show ?case by (simp add: passing_pairs_def)
next
  case (Cons d ds)
  from Cons.prems obtain row rest where
    row: "score_row d ss ms = Inr row" and rest: "score_pairs ds ss ms = Inr rest"
    and sc: "scored = row @ rest"
    by (auto simp: bind_err_Inr)
  show ?case using Cons.IH [OF rest] score_row_eq [OF row]
    by (simp add: sc passing_pairs_def)
qed

lemma sum_list_bounds:
  "(\<And>x. x \<in> set xs \<Longrightarrow> 0 \<le> f x \<and> f x \<le> (100::int)) \<Longrightarrow>
   0 \<le> sum_list (map f xs) \<and> sum_list (map f xs) \<le> 100 * int (length xs)"
proof (induction xs)
  case Nil
  show ?case by simp
next
  case (Cons x xs)
  have "0 \<le> f x \<and> f x \<le> 100" using Cons.prems by simp
  moreover have "0 \<le> sum_list (map f xs) \<and> sum_list (map f xs) \<le> 100 * int (length xs)"
    using Cons.prems by (intro Cons.IH) simp
  ultimately show ?case by simp
qed

lemma py_round_nearest: "\<bar>of_int (py_round x) - x\<bar> \<le> 1 / 2"
  using py_round_lower [of x] py_round_upper [of x] by linarith

lemma average_score_Inr:
  assumes "average_score ms = Inr avg"
  shows "avg = (if ms = [] then 0
                else py_round (fl (of_int (sum_list (map score ms)) / of_int (int (length ms)))))"
  using assms
  by (auto simp: average_score_def Let_def bind_err_Inr int_truediv_def split: if_splits)

text \<open>
  C1. Every match returned by \<open>match_records\<close>, in \<open>demand_matches\<close> and in the group of
  every supply aggregate, has a score between 1 and 100.
\<close>

theorem match_records_score_range:
  assumes "match_records D S ms b = Inr res"
  shows "(\<forall>m \<in> set (demand_matches res). 1 \<le> score m \<and> score m \<le> 100) \<and>
         (\<forall>g \<in> set (supply_aggregates res). \<forall>m \<in> set (matches g).
            1 \<le> score m \<and> score m \<le> 100)"
proof -
  have dm: "1 \<le> score m \<and> score m \<le> 100" if "m \<in> set (demand_matches res)" for m
  proof -
    from demand_matches_subset [OF assms that] obtain d s where "score_match d s = Inr m"
      by auto
    from score_match_bounds [OF this] show ?thesis by simp
  qed
  from assms obtain scored where
    agg: "aggregate_by_supply (demand_matches res) = Inr (supply_aggregates res)"
    by (rule match_records_Inr)
  show ?thesis using dm aggregate_by_supply_Inr(2) [OF agg] by blast
qed

theorem match_records_score_range_witness:
  "match_records [d1] [s1] 0 False = Inr result_one \<and>
   m11 \<in> set (demand_matches result_one) \<and> 1 \<le> score m11 \<and> score m11 \<le> 100 \<and>
   hd (supply_aggregates result_one) \<in> set (supply_aggregates result_one) \<and>
   m11 \<in> set (matches (hd (supply_aggregates result_one)))"
  using match_records_score_range [OF match_records_ex1] match_records_ex1
  by (simp add: result_one_def)

text \<open>
  C2. With \<open>best_match_only\<close> the returned \<open>demand_matches\<close> hold exactly one match for each
  demand key that occurs among the pairs passing \<open>min_score\<close>: the keys of the returned
  matches are pairwise different, they are the keys of the passing pairs, and each returned
  match is a passing pair whose score no passing pair with the same key exceeds.
\<close>

theorem best_match_only_one_per_key:
  assumes "match_records D S ms True = Inr res"
  shows "distinct (map (\<lambda>m. get_demand_key (demand m)) (demand_matches res)) \<and>
         (\<lambda>m. get_demand_key (demand m)) ` set (demand_matches res)
           = (\<lambda>m. get_demand_key (demand m)) `
               {m. \<exists>d \<in> set D. \<exists>s \<in> set S. score_match d s = Inr m \<and> ms \<le> score m} \<and>
         (\<forall>m \<in> set (demand_matches res).
            (\<exists>d \<in> set D. \<exists>s \<in> set S. score_match d s = Inr m \<and> ms \<le> score m) \<and>
            (\<forall>d \<in> set D. \<forall>s \<in> set S. \<forall>m'. score_match d s = Inr m' \<and> ms \<le> score m' \<and>
                get_demand_key (demand m') = get_demand_key (demand m)
                \<longrightarrow> score m' \<le> score m))"
proof -
  from assms obtain scored where sc: "score_pairs D S ms = Inr scored"
    and dm: "demand_matches res = best_loop {} (sort_desc score scored)"
    by (rule match_records_Inr) (simp add: get_best_match_per_demand_def)
  let ?P = "{m. \<exists>d \<in> set D. \<exists>s \<in> set S. score_match d s = Inr m \<and> ms \<le> score m}"
  have P: "set (sort_desc score scored) = ?P"
    using score_pairs_set [OF sc] by (simp add: set_sort_desc)
  have 1: "distinct (map dkey (demand_matches res))"
    by (simp add: dm best_loop_distinct)
  have 2: "dkey ` set (demand_matches res) = dkey ` ?P"
    using best_loop_keys [of "{}" "sort_desc score scored"] by (simp add: dm P)
  have 3: "m \<in> ?P" if "m \<in> set (demand_matches res)" for m
    using that best_loop_subset [of "{}" "sort_desc score scored"] by (auto simp: dm P)
  have 4: "score m' \<le> score m"
    if "m \<in> set (demand_matches res)" "m' \<in> ?P" "dkey m' = dkey m" for m m'
    using best_loop_max [OF sorted_sort_desc [of score scored], of m "{}" m'] that
    by (simp add: dm P)
  show ?thesis using 1 2 3 4 by blast
qed

theorem best_match_only_one_per_key_witness:
  "match_records [d1, d2] [s1, s2] 0 True = Inr result_best \<and>
   map (\<lambda>m. get_demand_key (demand m)) (demand_matches result_best) = [''d1'', ''d2''] \<and>
   m11 \<in> set (demand_matches result_best) \<and>
   score_match d1 s2 = Inr m12 \<and> 0 \<le> score m12 \<and>
   get_demand_key (demand m12) = get_demand_key (demand m11) \<and> score m12 \<le> score m11"
  using best_match_only_one_per_key [OF match_records_ex2] match_records_ex2
  by (simp add: result_best_def score_match_examples example_sel example_keys)

text \<open>
  C3. In both output modes \<open>demand_matches\<close> is sorted by non-increasing score, and
  \<open>supply_aggregates\<close> is sorted by non-increasing \<open>total_matches\<close>.
\<close>

theorem match_records_sorted:
  assumes "match_records D S ms b = Inr res"
  shows "sorted_wrt (\<lambda>x y. score y \<le> score x) (demand_matches res) \<and>
         sorted_wrt (\<lambda>g h. total_matches h \<le> total_matches g) (supply_aggregates res)"
proof -
  from assms obtain scored where
    dm: "demand_matches res = (if b then get_best_match_per_demand (sort_desc score scored)
                           else sort_desc score scored)"
    and agg: "aggregate_by_supply (demand_matches res) = Inr (supply_aggregates res)"
    by (rule match_records_Inr)
  have "sorted_wrt (\<lambda>x y. score y \<le> score x) (demand_matches res)"
    using sorted_sort_desc [of score scored] best_loop_sorted
    by (simp add: dm get_best_match_per_demand_def)
  then show ?thesis using aggregate_by_supply_Inr(1) [OF agg] by simp
qed

theorem match_records_sorted_witness:
  "match_records [d2, d1] [s1] 0 False = Inr result_sorted \<and>
   map score (demand_matches result_sorted) = [15, 12] \<and>
   sorted_wrt (\<lambda>x y. score y \<le> score x) (demand_matches result_sorted) \<and>
   sorted_wrt (\<lambda>g h. total_matches h \<le> total_matches g) (supply_aggregates result_sorted)"
  using match_records_sorted [OF match_records_ex3] match_records_ex3
  by (simp add: result_sorted_def example_sel)

text \<open>
  C7. In every aggregate returned by \<open>match_records\<close>, \<open>total_matches\<close> is the number of
  distinct demand keys among the matches of the group; it is the number of matches when no
  demand key occurs twice in the group.
\<close>

theorem total_matches_counts_unique_keys:
  assumes "match_records D S ms b = Inr res" and "g \<in> set (supply_aggregates res)"
  shows "total_matches g = card ((\<lambda>m. get_demand_key (demand m)) ` set (matches g)) \<and>
         (distinct (map (\<lambda>m. get_demand_key (demand m)) (matches g))
            \<longrightarrow> total_matches g = length (matches g))"
proof -
  from assms(1) obtain scored where
    agg: "aggregate_by_supply (demand_matches res) = Inr (supply_aggregates res)"
    by (rule match_records_Inr)
  have 1: "total_matches g = card (dkey ` set (matches g))"
    by (rule aggregate_by_supply_Inr(3) [OF agg assms(2)])
  have "card (dkey ` set (matches g)) = length (matches g)"
    if "distinct (map dkey (matches g))"
    using distinct_card [OF that] by simp
  with 1 show ?thesis by simp
qed

theorem total_matches_counts_unique_keys_witness:
  "match_records [d1, d1'] [s1] 0 False = Inr result_same_key \<and>
   hd (supply_aggregates result_same_key) \<in> set (supply_aggregates result_same_key) \<and>
   length (matches (hd (supply_aggregates result_same_key))) = 2 \<and>
   total_matches (hd (supply_aggregates result_same_key)) = 1 \<and>
   card ((\<lambda>m. get_demand_key (demand m)) ` set (matches (hd (supply_aggregates result_same_key)))) = 1"
  using total_matches_counts_unique_keys [OF match_records_ex4, of "hd (supply_aggregates result_same_key)"]
    match_records_ex4
  by (simp add: result_same_key_def example_sel example_keys)

text \<open>
  C8. \<open>stats['avg_score']\<close> is computed from the scores of all pairs that pass the threshold,
  whatever the output mode: it is 0 when no pair passes, and otherwise the float quotient of
  their sum and their number, rounded to an integer. Up to \<open>2\<^sup>4\<^sup>5\<close> passing pairs the float
  quotient rounds as the exact average does, so the result is an integer nearest to the
  average.
\<close>

theorem avg_score_over_all_passing_pairs:
  assumes "match_records D S ms b = Inr res"
  shows "avg_score (stats res) =
           (if passing_pairs D S ms = [] then 0
            else py_round (fl (of_int (sum_list (map score (passing_pairs D S ms)))
                               / of_int (int (length (passing_pairs D S ms)))))) \<and>
         (passing_pairs D S ms \<noteq> [] \<and> length (passing_pairs D S ms) \<le> 2 ^ 45 \<longrightarrow>
            avg_score (stats res) =
              py_round (of_int (sum_list (map score (passing_pairs D S ms)))
                        / of_int (int (length (passing_pairs D S ms)))) \<and>
            \<bar>of_int (avg_score (stats res))
               - of_int (sum_list (map score (passing_pairs D S ms)))
                 / of_int (int (length (passing_pairs D S ms)))\<bar> \<le> (1 / 2 :: rat))"
proof -
  from assms obtain scored where sc: "score_pairs D S ms = Inr scored"
    and avg: "average_score (sort_desc score scored) = Inr (avg_score (stats res))"
    by (rule match_records_Inr)
  let ?P = "passing_pairs D S ms"
  let ?q = "(of_int (sum_list (map score ?P)) / of_int (int (length ?P)) :: rat)"
  have P: "scored = ?P" using sc by (rule score_pairs_eq)
  have em: "sort_desc score ?P = [] \<longleftrightarrow> ?P = []"
    using length_sort_desc [of score ?P] by (metis length_0_conv)
  have 1: "avg_score (stats res) = (if ?P = [] then 0 else py_round (fl ?q))"
    using average_score_Inr [OF avg]
    by (simp add: P em sum_list_sort_desc length_sort_desc)
  have 2: "avg_score (stats res) = py_round ?q \<and> \<bar>of_int (avg_score (stats res)) - ?q\<bar> \<le> 1 / 2"
    if ne: "?P \<noteq> []" and len: "length ?P \<le> 2 ^ 45"
  proof -
    have rng: "0 \<le> score m \<and> score m \<le> 100" if "m \<in> set ?P" for m
    proof -
      from that score_pairs_set [OF sc] obtain d s where "score_match d s = Inr m"
        by (auto simp: P)
      from score_match_bounds [OF this] show ?thesis by simp
    qed
    have s: "0 \<le> sum_list (map score ?P)" "sum_list (map score ?P) \<le> 100 * int (length ?P)"
      using sum_list_bounds [of ?P score] rng by simp_all
    have n: "0 < int (length ?P)" using ne by simp
    have "int (length ?P) \<le> int (2 ^ 45)" using len by (simp only: of_nat_le_iff)
    then have n': "int (length ?P) \<le> 2 ^ 45" by simp
    have eq: "py_round (fl ?q) = py_round ?q"
      by (rule py_round_fl_quotient [OF s(1) n s(2) n'])
    then have a: "avg_score (stats res) = py_round ?q" using 1 ne by simp
    show ?thesis using py_round_nearest [of ?q] a by simp
  qed
  show ?thesis using 1 2 by blast
qed

lemma passing_pairs_example: "passing_pairs [d1, d2] [s1, s2] 0 = [m11, m12, m21, m22]"
  by (simp add: passing_pairs_def score_match_examples example_sel)

theorem avg_score_over_all_passing_pairs_witness:
  "match_records [d1, d2] [s1, s2] 0 True = Inr result_best \<and>
   passing_pairs [d1, d2] [s1, s2] 0 = [m11, m12, m21, m22] \<and>
   length (passing_pairs [d1, d2] [s1, s2] 0) \<le> 2 ^ 45 \<and>
   length (demand_matches result_best) = 2 \<and>
   avg_score (stats result_best) = py_round (51 / 4) \<and>
   \<bar>of_int (avg_score (stats result_best)) - 51 / 4\<bar> \<le> (1 / 2 :: rat)"
  using avg_score_over_all_passing_pairs [OF match_records_ex2] match_records_ex2
  by (simp add: passing_pairs_example example_sel result_best_def py_round_51_4)

text \<open>
  C9. The composite score of every pair is at least 6: the three feature scorers and the
  alignment score return at least 5, so the weighted blend is at least 5.5, which rounds
  to 6; hence the \<open>total_score == 0\<close> branch is never taken and no match carries the reason
  \<open>Exploratory match\<close>.
\<close>

theorem score_match_at_least_six:
  "(score_match d s = Inr m \<longrightarrow> 6 \<le> score m \<and> ''Exploratory match'' \<notin> set (reasons m)) \<and>
   (score_industry a b = Inr v \<longrightarrow> 5 \<le> v) \<and>
   5 \<le> score_signal sg t i \<and>
   (score_size x y = Inr w \<longrightarrow> 5 \<le> w) \<and>
   5 \<le> score_alignment n c \<and>
   (5 \<le> si \<and> 5 \<le> ss \<and> 5 \<le> sz \<and> 5 \<le> sa \<and> 0 \<le> sb \<longrightarrow>
      11 / 2 \<le> weighted_total si ss sz sa sb \<and> 6 \<le> py_round (weighted_total si ss sz sa sb))"
  using score_match_bounds [of d s m] score_industry_range [of a b v] score_signal_range [of sg t i]
    score_size_range [of x y w] score_alignment_range [of n c]
    weighted_total_ge [of si ss sz sa sb] py_round_weighted_total_ge [of si ss sz sa sb]
  by blast

theorem score_match_at_least_six_witness:
  "score_match d1 s1 = Inr m11 \<and> 6 \<le> score m11 \<and> ''Exploratory match'' \<notin> set (reasons m11) \<and>
   score_industry (PStr ''x'') (PStr ''x'') = Inr 30 \<and>
   score_size PNone PNone = Inr 10 \<and>
   11 / 2 \<le> weighted_total 5 5 5 5 0 \<and> 6 \<le> py_round (weighted_total 5 5 5 5 0)"
  using score_match_at_least_six [where d = d1 and s = s1 and m = m11 and a = "PStr ''x''"
      and b = "PStr ''x''" and v = 30 and x = PNone and y = PNone and w = 10
      and si = 5 and ss = 5 and sz = 5 and sa = 5 and sb = 0]
    score_match_examples(1) score_industry_blank(1) score_size_blank [of PNone]
  by simp

section \<open>Properties of semantic expansion\<close>

lemma fst_add_expansion: "fst (add_expansion tag st e) = insert (lower e) (fst st)"
  by (simp add: add_expansion_def Let_def)

lemma fst_foldl_add_expansion:
  "fst (foldl (add_expansion tag) st es) = fst st \<union> lower ` set es"
  by (induction es arbitrary: st) (simp_all add: fst_add_expansion)

lemma fst_expand_token: "fst st \<subseteq> fst (expand_token ctx m st token)"
  by (auto simp: expand_token_def Let_def fst_foldl_add_expansion split: option.splits)

lemma fst_foldl_expand_token: "fst st \<subseteq> fst (foldl (expand_token ctx m) st tokens)"
proof (induction tokens arbitrary: st)
  case Nil
  show ?case by simp
next
  case (Cons t ts)
  show ?case using fst_expand_token [of st ctx m t] Cons.IH [of "expand_token ctx m st t"]
    by simp
qed

lemma fst_expand_tokens: "set (map lower tokens) \<subseteq> fst (expand_tokens tokens ctx)"
  using fst_foldl_expand_token [of "(set (map lower tokens), Map.empty)"]
  by (simp add: expand_tokens_def Let_def)

lemma foldl_add_if_new:
  "fst (foldl (add_if_new tag) st es) = fst st \<union> lower ` set es \<and>
   (\<forall>k. snd (foldl (add_if_new tag) st es) k =
      (if k \<in> lower ` set es \<and> k \<notin> fst st
       then Some ((case snd st k of None \<Rightarrow> [] | Some l \<Rightarrow> l) @ [tag])
       else snd st k))"
proof (induction es arbitrary: st)
  case Nil
  show ?case by simp
next
  case (Cons e es)
  show ?case
  proof (cases "lower e \<in> fst st")
    case True
    then have "add_if_new tag st e = st" by (simp add: add_if_new_def)
    then show ?thesis using Cons.IH [of st] True by auto
  next
    case False
    then have st1: "add_if_new tag st e = add_expansion tag st e" by (simp add: add_if_new_def)
    have f: "fst (add_expansion tag st e) = insert (lower e) (fst st)"
      by (rule fst_add_expansion)
    have s: "snd (add_expansion tag st e) =
             (snd st)(lower e \<mapsto> (case snd st (lower e) of None \<Rightarrow> [] | Some l \<Rightarrow> l) @ [tag])"
      by (simp add: add_expansion_def Let_def)
    show ?thesis using Cons.IH [of "add_expansion tag st e"] False
      by (auto simp: st1 f s)
  qed
qed

text \<open>
  C10. On either side and for any text, the base set of \<open>expand_semantic_signals\<close> is the
  set of the lowercased input tokens, and the expanded set contains it: expansion only adds.
\<close>

theorem expansion_only_adds:
  "base (expand_semantic_signals tokens ctx) = set (map lower tokens) \<and>
   base (expand_semantic_signals tokens ctx) \<subseteq> expanded (expand_semantic_signals tokens ctx)"
  using fst_expand_tokens [of tokens ctx]
  by (auto simp: expand_semantic_signals_def Let_def foldl_add_if_new)

lemma match_here_prefix: "match_here p prev s \<Longrightarrow> prefix (lit_of p) s"
  by (cases p) simp_all

lemma search_from_sublist:
  "search_from ps prev s \<Longrightarrow> \<exists>p \<in> set ps. sublist (lit_of p) s"
proof (induction s arbitrary: prev)
  case Nil
  then obtain p where "p \<in> set ps" "match_here p prev []" by (auto simp: list_ex_iff)
  then show ?case using match_here_prefix [of p prev "[]"] by (auto intro: prefix_imp_sublist)
next
  case (Cons c cs)
  show ?case
  proof (cases "list_ex (\<lambda>p. match_here p prev (c # cs)) ps")
    case True
    then obtain p where "p \<in> set ps" "match_here p prev (c # cs)" by (auto simp: list_ex_iff)
    then show ?thesis using match_here_prefix [of p prev "c # cs"]
      by (auto intro: prefix_imp_sublist)
  next
    case False
    with Cons.prems have "search_from ps (Some c) cs" by simp
    from Cons.IH [OF this] obtain p where "p \<in> set ps" "sublist (lit_of p) cs" by auto
    then show ?thesis by (auto simp: sublist_Cons_right)
  qed
qed

lemma re_search_words_contains:
  "re_search (words ws) s \<Longrightarrow> list_ex (\<lambda>kw. str_in kw s) ws"
proof -
  assume "re_search (words ws) s"
  then obtain p where "p \<in> set (words ws)" "sublist (lit_of p) s"
    using search_from_sublist [of "words ws" None s] by (auto simp: re_search_def)
  then show ?thesis by (auto simp: words_def list_ex_iff str_in_def)
qed

text \<open>
  C4, as amended. \<open>resolve_ambiguous_term\<close> returns \<open>capability\<close> only on the supply
  side, and only in two cases: the term is engineering, engineer, engineers, sales or
  marketing and the lowercased text holds one of the recruiting-context words (recruit,
  recruiting, staffing, talent, headhunt, placement, sourcing) as a whole word; or the term
  is growth and the text holds one of the hiring-context words (hire, hiring, team,
  headcount, recruit, talent, staffing, placement) as a whole word.
\<close>

theorem capability_needs_context:
  assumes "resolve_ambiguous_term term ctx = Some Capability"
  shows "side ctx = Supply \<and>
         ((lower term \<in> {''engineering'', ''engineer'', ''engineers'', ''sales'', ''marketing''} \<and>
           re_search (words recruiting_context_words) (lower (ctx_text ctx)) \<and>
           list_ex (\<lambda>kw. str_in kw (lower (ctx_text ctx))) recruiting_context_words)
          \<or> (lower term = ''growth'' \<and>
              re_search (words hiring_context_words) (lower (ctx_text ctx)) \<and>
              list_ex (\<lambda>kw. str_in kw (lower (ctx_text ctx))) hiring_context_words))"
proof -
  have s: "side ctx = Supply" using assms
    by (cases "side ctx") (auto simp: resolve_ambiguous_term_def Let_def split: if_splits)
  have "(lower term \<in> {''engineering'', ''engineer'', ''engineers'', ''sales'', ''marketing''} \<and>
           re_search (words recruiting_context_words) (lower (ctx_text ctx)))
          \<or> (lower term = ''growth'' \<and>
              re_search (words hiring_context_words) (lower (ctx_text ctx)))"
    using assms by (auto simp: resolve_ambiguous_term_def Let_def split: if_splits)
  then show ?thesis using s re_search_words_contains by blast
qed

lemmas text_simps = lower_def lower_char_def is_upper_def is_space_char_def str_in_def sublist_Cons_right

text \<open>
  The docstring's example, in lower case: \<open>engineering\<close> in the text of a recruiting
  agency.
\<close>

theorem capability_needs_context_witness:
  "resolve_ambiguous_term ''engineering''
     \<lparr>side = Supply, ctx_text = ''engineering recruiting agency''\<rparr> = Some Capability \<and>
   re_search (words recruiting_context_words) (lower ''engineering recruiting agency'') \<and>
   list_ex (\<lambda>kw. str_in kw (lower ''engineering recruiting agency'')) recruiting_context_words"
proof -
  have h: "resolve_ambiguous_term ''engineering''
     \<lparr>side = Supply, ctx_text = ''engineering recruiting agency''\<rparr> = Some Capability"
    by (simp add: resolve_ambiguous_term_def Let_def recruiting_context_words_def
        hiring_context_words_def re_simps text_simps)
  show ?thesis using h capability_needs_context [OF h] by (simp add: text_simps)
qed

text \<open>
  C4, as stated, fails for \<open>growth\<close>: the source gates it on the hiring context on both
  sides, so a supply text with \<open>team\<close> and none of the recruiting-context words resolves
  to \<open>capability\<close>.
\<close>

theorem growth_capability_without_recruiting_keyword:
  "resolve_ambiguous_term ''growth'' \<lparr>side = Supply, ctx_text = ''team growth''\<rparr> = Some Capability \<and>
   \<not> list_ex (\<lambda>kw. str_in kw (lower ''team growth'')) recruiting_context_words"
  by (simp add: resolve_ambiguous_term_def Let_def recruiting_context_words_def
      hiring_context_words_def re_simps text_simps)

text \<open>
  C6, as amended. On the supply side, when the lowercased text holds one of recruit,
  recruiting, staffing, talent, headhunt, placement as a whole word (the source's pattern is
  anchored by \<open>\b\<close> on both sides), every term of the \<open>recruiting\<close> expansion set is in
  the expanded set; a term the token loop had not added gets the provenance
  \<open>text:recruiting_detected\<close> appended, and a term that was already there keeps its reasons
  unchanged.
\<close>

theorem recruiting_text_detection:
  assumes "side ctx = Supply"
    and "re_search (words recruiting_text_words) (lower (ctx_text ctx))"
  shows "lower ` set (get_or_empty SUPPLY_CAPABILITY_EXPANSIONS ''recruiting'')
           \<subseteq> expanded (expand_semantic_signals tokens ctx) \<and>
         (\<forall>k \<in> lower ` set (get_or_empty SUPPLY_CAPABILITY_EXPANSIONS ''recruiting'').
            k \<notin> fst (expand_tokens tokens ctx) \<longrightarrow>
            exp_reasons (expand_semantic_signals tokens ctx) k
              = Some ((case snd (expand_tokens tokens ctx) k of None \<Rightarrow> [] | Some l \<Rightarrow> l)
                      @ [''text:recruiting_detected''])) \<and>
         (\<forall>k. k \<in> fst (expand_tokens tokens ctx) \<longrightarrow>
            exp_reasons (expand_semantic_signals tokens ctx) k = snd (expand_tokens tokens ctx) k)"
  using assms
  by (simp add: expand_semantic_signals_def Let_def foldl_add_if_new SEMANTIC_MATCHING_ENABLED_def)

lemma recruiting_expansions_hiring:
  "''hiring'' \<in> lower ` set (get_or_empty SUPPLY_CAPABILITY_EXPANSIONS ''recruiting'')"
  by (simp add: get_or_empty_def SUPPLY_CAPABILITY_EXPANSIONS_def text_simps)

text \<open>
  A supply text with the word \<open>staffing\<close> and no tokens.
\<close>

theorem recruiting_text_detection_witness:
  "side \<lparr>side = Supply, ctx_text = ''staffing firm''\<rparr> = Supply \<and>
   re_search (words recruiting_text_words) (lower ''staffing firm'') \<and>
   ''hiring'' \<in> expanded (expand_semantic_signals [] \<lparr>side = Supply, ctx_text = ''staffing firm''\<rparr>) \<and>
   exp_reasons (expand_semantic_signals [] \<lparr>side = Supply, ctx_text = ''staffing firm''\<rparr>) ''hiring''
     = Some [''text:recruiting_detected'']"
proof -
  have h: "re_search (words recruiting_text_words)
             (lower (ctx_text \<lparr>side = Supply, ctx_text = ''staffing firm''\<rparr>))"
    by (simp add: recruiting_text_words_def re_simps text_simps)
  have e: "expand_tokens [] \<lparr>side = Supply, ctx_text = ''staffing firm''\<rparr> = ({}, Map.empty)"
    by (simp add: expand_tokens_def)
  show ?thesis
    using recruiting_text_detection [of "\<lparr>side = Supply, ctx_text = ''staffing firm''\<rparr>" "[]", OF _ h]
      h recruiting_expansions_hiring
    by (auto simp: e)
qed

text \<open>
  C6, as stated, fails: the text \<open>recruiter\<close> contains \<open>recruit\<close> and matches the
  unanchored pattern of the claim, but no word of the anchored pattern of the source, and
  nothing of the \<open>recruiting\<close> expansion set is added.
\<close>

theorem recruiter_text_not_expanded:
  "str_in ''recruit'' (lower ''recruiter'') \<and>
   re_search (lits recruiting_text_words) (lower ''recruiter'') \<and>
   ''hiring'' \<in> lower ` set (get_or_empty SUPPLY_CAPABILITY_EXPANSIONS ''recruiting'') \<and>
   ''hiring'' \<notin> expanded (expand_semantic_signals [''recruiter'']
                              \<lparr>side = Supply, ctx_text = ''recruiter''\<rparr>) \<and>
   exp_reasons (expand_semantic_signals [''recruiter'']
                  \<lparr>side = Supply, ctx_text = ''recruiter''\<rparr>) ''hiring'' = None"
proof -
  have l: "lower ''recruiter'' = ''recruiter''" by (simp add: lower_def lower_char_def is_upper_def)
  have r: "resolve_ambiguous_term ''recruiter'' \<lparr>side = Supply, ctx_text = ''recruiter''\<rparr> = None"
    by (simp add: resolve_ambiguous_term_def Let_def l)
  have t: "expand_tokens [''recruiter''] \<lparr>side = Supply, ctx_text = ''recruiter''\<rparr>
             = ({''recruiter''}, Map.empty)"
    by (simp add: expand_tokens_def expand_token_def Let_def l r SUPPLY_CAPABILITY_EXPANSIONS_def)
  have n: "\<not> re_search (words recruiting_text_words) ''recruiter''"
    by (simp add: recruiting_text_words_def re_simps)
  have e: "expand_semantic_signals [''recruiter''] \<lparr>side = Supply, ctx_text = ''recruiter''\<rparr>
             = \<lparr>base = {''recruiter''}, expanded = {''recruiter''}, exp_reasons = Map.empty\<rparr>"
    by (simp add: expand_semantic_signals_def Let_def t n l SEMANTIC_MATCHING_ENABLED_def)
  have m: "re_search (lits recruiting_text_words) ''recruiter''"
    by (simp add: recruiting_text_words_def re_simps)
  show ?thesis using recruiting_expansions_hiring m
    by (simp add: e l str_in_def sublist_Cons_right)
qed

text \<open>
  C5. The recruiting branch locates only the substring \<open>recruit\<close>, in the description and
  then in the title, and reports everything else as found in the company name: a record
  whose description is \<open>staffing agency\<close> and whose company name is empty is classified
  \<open>recruiting\<close> with confidence 0.7 and source \<open>company_name\<close>.
\<close>

theorem staffing_description_reported_as_company_name:
  "str_in ''staffing'' (lower (company_description ((blank ''s'' [])\<lparr>company_description := ''staffing agency''\<rparr>))) \<and>
   company ((blank ''s'' [])\<lparr>company_description := ''staffing agency''\<rparr>) = [] \<and>
   extract_capability_from_supply ((blank ''s'' [])\<lparr>company_description := ''staffing agency''\<rparr>)
     = Inr \<lparr>category = ''recruiting'', specifics = [], confidence = flit 7 10,
            source = ''company_name''\<rparr>"
  by (simp add: extract_capability_from_supply_def capability_of_def bind_err_def blank_def
      recruiting_trigger_def re_simps opt_item_def text_simps is_upper_def Let_def)

end
